theory Spec2Isabelle
  imports Main "HOL-Library.Sublist"
begin

section \<open>Exceptions\<close>

text \<open>
  Python exceptions are values. \<open>GatewayError m\<close> is any exception raised by the gateway
  client whose \<open>str()\<close> is \<open>m\<close>. The two Strands exceptions carry their message and the
  exception they were raised \<open>from\<close> (their cause).
\<close>

datatype exn =
    GatewayError string
  | ContextWindowOverflowException string exn
  | ModelThrottledException string exn
  | TypeError string
  | KeyError string
  | AttributeError string
  | IndexError string
  | UnboundLocalError string
  | ValueError string
  | RuntimeError string

fun str_exn :: "exn \<Rightarrow> string" where
  "str_exn (GatewayError m) = m"
| "str_exn (ContextWindowOverflowException m c) = m"
| "str_exn (ModelThrottledException m c) = m"
| "str_exn (TypeError m) = m"
| "str_exn (KeyError m) = m"
| "str_exn (AttributeError m) = m"
| "str_exn (IndexError m) = m"
| "str_exn (UnboundLocalError m) = m"
| "str_exn (ValueError m) = m"
| "str_exn (RuntimeError m) = m"

section \<open>Library functions\<close>

text \<open>
  The code calls four functions of the Python standard library, which are not part of this
  repository: \<open>str.lower\<close>, the table \<open>mimetypes.types_map\<close>, \<open>base64.b64encode\<close>
  (followed by \<open>.decode("utf-8")\<close>) and \<open>json.dumps\<close>. They are parameters of the
  model; \<open>'j\<close> is the type of JSON values.
\<close>

record 'j pylib =
  str_lower :: "string \<Rightarrow> string"
  types_map :: "string \<rightharpoonup> string"
  b64encode :: "string \<Rightarrow> string"
  json_dumps :: "'j \<Rightarrow> string"

section \<open>Error classifier (\<open>_errors.py\<close>)\<close>

text \<open>Python's \<open>pattern in message\<close> on strings: does \<open>pattern\<close> occur in \<open>message\<close>?\<close>

fun starts_with :: "string \<Rightarrow> string \<Rightarrow> bool" where
  "starts_with [] s = True"
| "starts_with (p # ps) [] = False"
| "starts_with (p # ps) (c # cs) = (p = c \<and> starts_with ps cs)"

fun str_in :: "string \<Rightarrow> string \<Rightarrow> bool" where
  "str_in pat [] = (pat = [])"
| "str_in pat (c # cs) = (starts_with pat (c # cs) \<or> str_in pat cs)"

definition CONTEXT_WINDOW_OVERFLOW_MESSAGES :: "string list" where
  "CONTEXT_WINDOW_OVERFLOW_MESSAGES =
     [''prompt is too long'',
      ''input is too long'',
      ''maximum context length'',
      ''context window'',
      ''context length exceeded'',
      ''too many tokens'']"

text \<open>
  \<open>handle_api_error\<close> returns \<open>None\<close> (here \<open>Inr ()\<close>) when it does not classify the error,
  and raises (here \<open>Inl\<close>) otherwise.
\<close>

definition handle_api_error :: "'j pylib \<Rightarrow> exn \<Rightarrow> exn + unit" where
  "handle_api_error lib error =
     (let message = str_lower lib (str_exn error) in
      if list_ex (\<lambda>pattern. str_in pattern message) CONTEXT_WINDOW_OVERFLOW_MESSAGES
      then Inl (ContextWindowOverflowException (str_exn error) error)
      else if str_in ''rate'' message \<or> str_in ''429'' message
              \<or> str_in ''overloaded'' message \<or> str_in ''529'' message
      then Inl (ModelThrottledException (str_exn error) error)
      else Inr ())"

text \<open>
  The \<open>except Exception as e: handle_api_error(e); raise\<close> clause of \<open>stream\<close>: the
  exception that leaves the clause.
\<close>

definition reraise_classified :: "'j pylib \<Rightarrow> exn \<Rightarrow> exn" where
  "reraise_classified lib e = (case handle_api_error lib e of Inl e' \<Rightarrow> e' | Inr u \<Rightarrow> e)"

section \<open>Host data model (Strands types)\<close>

datatype role = User | Assistant

record 'j tool_use =
  tu_toolUseId :: string
  tu_name :: string
  tu_input :: 'j

text \<open>
  One entry of a tool result's content: a dict with exactly one tag. \<open>TROther k\<close> is any
  entry whose tag \<open>k\<close> is neither \<open>json\<close>, \<open>text\<close> nor \<open>image\<close> (a document, say).
\<close>

datatype 'j tool_result_content =
    TRText string
  | TRJson 'j
  | TRImage string string
  | TROther string

record 'j tool_result =
  tr_toolUseId :: string
  tr_content :: "'j tool_result_content list"

text \<open>
  A content block: a dict with exactly one tag. \<open>Image fmt bytes\<close> has the declared format
  and the source bytes; \<open>OtherBlock k\<close> is a block with any other tag \<open>k\<close>.
\<close>

datatype 'j content_block =
    Text string
  | Image string string
  | ToolUse "'j tool_use"
  | ToolResult "'j tool_result"
  | OtherBlock string

record 'j message =
  msg_role :: role
  msg_content :: "'j content_block list"

datatype system_content_block = SystemText string | CachePoint string

record 'j tool_spec =
  ts_name :: string
  ts_description :: string
  ts_inputSchema_json :: 'j

text \<open>
  A tool choice is a dict with one of the keys \<open>auto\<close>, \<open>any\<close>, \<open>tool\<close>;
  \<open>ChoiceOther k\<close> is a dict with some other key.
\<close>

datatype tool_choice = Auto | Any | Tool string | ChoiceOther string

section \<open>Wire data model (OpenAI-compatible request)\<close>

datatype formatted_content =
    FText string
  | FImageUrl string string string

record formatted_tool_call =
  fc_arguments :: string
  fc_name :: string
  fc_id :: string
  fc_type :: string

datatype wire_role = RoleSystem | RoleTool | RoleOf role

datatype wire_content = ContentStr string | ContentList "formatted_content list"

text \<open>
  A formatted message is a dict with the keys \<open>role\<close> and \<open>content\<close> and, optionally,
  \<open>tool_calls\<close> and \<open>tool_call_id\<close>; an absent key is \<open>None\<close>.
\<close>

record formatted_message =
  fm_role :: wire_role
  fm_content :: wire_content
  fm_tool_calls :: "formatted_tool_call list option"
  fm_tool_call_id :: "string option"

text \<open>
  The value of \<open>tool_choice\<close>: a string, or the dict
  \<open>{"type": "function", "function": {"name": n}}\<close>, which is \<open>ChoiceFunction n\<close>.
\<close>

datatype formatted_tool_choice = ChoiceStr string | ChoiceFunction string

record 'j formatted_tool =
  ft_type :: string
  ft_name :: string
  ft_description :: string
  ft_parameters :: 'j

text \<open>
  The values of the request dict. \<open>VParam p\<close> is a value taken from the configured extra
  parameters (of any type \<open>'p\<close>).
\<close>

datatype ('j, 'p) request_value =
    VMessages "formatted_message list"
  | VStr string
  | VBool bool
  | VOptions "(string \<times> bool) list"
  | VTools "'j formatted_tool list"
  | VToolChoice formatted_tool_choice
  | VParam 'p

type_synonym ('j, 'p) request = "string \<rightharpoonup> ('j, 'p) request_value"

record 'p portkey_config =
  model_id :: string
  params :: "(string \<rightharpoonup> 'p) option"

section \<open>Request formatter (\<open>_formatting.py\<close>)\<close>

text \<open>A list comprehension whose element expression may raise: the first exception wins.\<close>

fun map_raise :: "('a \<Rightarrow> exn + 'b) \<Rightarrow> 'a list \<Rightarrow> exn + 'b list" where
  "map_raise f [] = Inr []"
| "map_raise f (x # xs) =
     (case f x of
        Inl e \<Rightarrow> Inl e
      | Inr y \<Rightarrow> (case map_raise f xs of Inl e \<Rightarrow> Inl e | Inr ys \<Rightarrow> Inr (y # ys)))"

fun block_key :: "'j content_block \<Rightarrow> string" where
  "block_key (Text t) = ''text''"
| "block_key (Image fmt bytes) = ''image''"
| "block_key (ToolUse u) = ''toolUse''"
| "block_key (ToolResult r) = ''toolResult''"
| "block_key (OtherBlock k) = k"

fun format_request_message_content ::
  "'j pylib \<Rightarrow> 'j content_block \<Rightarrow> exn + formatted_content" where
  "format_request_message_content lib (Image fmt bytes) =
     (let mime_type = (case types_map lib (''.'' @ fmt) of
                         None \<Rightarrow> ''application/octet-stream''
                       | Some m \<Rightarrow> m);
          image_data = b64encode lib bytes
      in Inr (FImageUrl ''auto'' mime_type (''data:'' @ mime_type @ '';base64,'' @ image_data)))"
| "format_request_message_content lib (Text t) = Inr (FText t)"
| "format_request_message_content lib content =
     Inl (TypeError (''content_type=<'' @ block_key content @ ''> | unsupported type''))"

definition format_request_message_tool_call :: "'j pylib \<Rightarrow> 'j tool_use \<Rightarrow> formatted_tool_call" where
  "format_request_message_tool_call lib tool_use =
     \<lparr>fc_arguments = json_dumps lib (tu_input tool_use),
      fc_name = tu_name tool_use,
      fc_id = tu_toolUseId tool_use,
      fc_type = ''function''\<rparr>"

text \<open>
  The comprehension of \<open>format_request_tool_message\<close>: a \<open>json\<close> entry becomes
  \<open>{"text": json.dumps(...)}\<close>, every other entry is passed on as it is.
\<close>

fun tool_result_block :: "'j pylib \<Rightarrow> 'j tool_result_content \<Rightarrow> 'j content_block" where
  "tool_result_block lib (TRJson j) = Text (json_dumps lib j)"
| "tool_result_block lib (TRText t) = Text t"
| "tool_result_block lib (TRImage fmt bytes) = Image fmt bytes"
| "tool_result_block lib (TROther k) = OtherBlock k"

definition format_request_tool_message :: "'j pylib \<Rightarrow> 'j tool_result \<Rightarrow> exn + formatted_message" where
  "format_request_tool_message lib tool_result =
     (let contents = map (tool_result_block lib) (tr_content tool_result) in
      case map_raise (format_request_message_content lib) contents of
        Inl e \<Rightarrow> Inl e
      | Inr formatted \<Rightarrow>
          Inr \<lparr>fm_role = RoleTool,
               fm_content = ContentList formatted,
               fm_tool_calls = None,
               fm_tool_call_id = Some (tr_toolUseId tool_result)\<rparr>)"

fun join :: "string \<Rightarrow> string list \<Rightarrow> string" where
  "join sep [] = []"
| "join sep [x] = x"
| "join sep (x # y # ys) = x @ sep @ join sep (y # ys)"

fun system_block_texts :: "system_content_block list \<Rightarrow> string list" where
  "system_block_texts [] = []"
| "system_block_texts (SystemText t # bs) = t # system_block_texts bs"
| "system_block_texts (CachePoint k # bs) = system_block_texts bs"

fun is_tool_block :: "'j content_block \<Rightarrow> bool" where
  "is_tool_block (ToolUse u) = True"
| "is_tool_block (ToolResult r) = True"
| "is_tool_block b = False"

fun tool_uses :: "'j content_block list \<Rightarrow> 'j tool_use list" where
  "tool_uses [] = []"
| "tool_uses (ToolUse u # bs) = u # tool_uses bs"
| "tool_uses (b # bs) = tool_uses bs"

fun tool_results :: "'j content_block list \<Rightarrow> 'j tool_result list" where
  "tool_results [] = []"
| "tool_results (ToolResult r # bs) = r # tool_results bs"
| "tool_results (b # bs) = tool_results bs"

text \<open>The body of the loop over the messages: the messages it appends to the result.\<close>

definition format_one_message :: "'j pylib \<Rightarrow> 'j message \<Rightarrow> exn + formatted_message list" where
  "format_one_message lib message =
     (let contents = msg_content message in
      case map_raise (format_request_message_content lib)
             (filter (\<lambda>content. \<not> is_tool_block content) contents) of
        Inl e \<Rightarrow> Inl e
      | Inr formatted_contents \<Rightarrow>
          (let formatted_tool_calls = map (format_request_message_tool_call lib) (tool_uses contents) in
           case map_raise (format_request_tool_message lib) (tool_results contents) of
             Inl e \<Rightarrow> Inl e
           | Inr formatted_tool_messages \<Rightarrow>
               Inr (\<lparr>fm_role = RoleOf (msg_role message),
                     fm_content = ContentList formatted_contents,
                     fm_tool_calls = (if formatted_tool_calls \<noteq> [] then Some formatted_tool_calls else None),
                     fm_tool_call_id = None\<rparr>
                    # formatted_tool_messages)))"

fun format_message_loop :: "'j pylib \<Rightarrow> 'j message list \<Rightarrow> exn + formatted_message list" where
  "format_message_loop lib [] = Inr []"
| "format_message_loop lib (message # messages) =
     (case format_one_message lib message of
        Inl e \<Rightarrow> Inl e
      | Inr ms \<Rightarrow> (case format_message_loop lib messages of Inl e \<Rightarrow> Inl e | Inr rest \<Rightarrow> Inr (ms @ rest)))"

text \<open>The truth value of \<open>message["content"]\<close>: a non-empty string or a non-empty list.\<close>

fun content_truthy :: "wire_content \<Rightarrow> bool" where
  "content_truthy (ContentStr s) = (s \<noteq> [])"
| "content_truthy (ContentList l) = (l \<noteq> [])"

definition system_message :: "string \<Rightarrow> formatted_message" where
  "system_message t =
     \<lparr>fm_role = RoleSystem, fm_content = ContentStr t, fm_tool_calls = None, fm_tool_call_id = None\<rparr>"

text \<open>
  \<open>if system_prompt_content:\<close> holds for a non-empty list only, and
  \<open>elif system_prompt:\<close> for a non-empty string only; \<open>None\<close> is the absent argument.
\<close>

definition system_messages ::
  "string option \<Rightarrow> system_content_block list option \<Rightarrow> formatted_message list" where
  "system_messages system_prompt system_prompt_content =
     (if system_prompt_content \<noteq> None \<and> system_prompt_content \<noteq> Some [] then
        (let system_text = join '' '' (system_block_texts (the system_prompt_content)) in
         if system_text \<noteq> [] then [system_message system_text] else [])
      else if system_prompt \<noteq> None \<and> system_prompt \<noteq> Some [] then
        [system_message (the system_prompt)]
      else [])"

definition format_request_messages ::
  "'j pylib \<Rightarrow> 'j message list \<Rightarrow> string option \<Rightarrow> system_content_block list option
     \<Rightarrow> exn + formatted_message list" where
  "format_request_messages lib messages system_prompt system_prompt_content =
     (case format_message_loop lib messages of
        Inl e \<Rightarrow> Inl e
      | Inr ms \<Rightarrow>
          Inr (filter (\<lambda>message. content_truthy (fm_content message) \<or> fm_tool_calls message \<noteq> None)
                 (system_messages system_prompt system_prompt_content @ ms)))"

fun format_tool_choice :: "tool_choice \<Rightarrow> formatted_tool_choice" where
  "format_tool_choice Auto = ChoiceStr ''auto''"
| "format_tool_choice Any = ChoiceStr ''required''"
| "format_tool_choice (Tool n) = ChoiceFunction n"
| "format_tool_choice (ChoiceOther k) = ChoiceStr ''auto''"

section \<open>\<open>PortkeyModel.format_request\<close> (\<open>model.py\<close>)\<close>

definition format_tool_spec :: "'j tool_spec \<Rightarrow> 'j formatted_tool" where
  "format_tool_spec tool_spec =
     \<lparr>ft_type = ''function'',
      ft_name = ts_name tool_spec,
      ft_description = ts_description tool_spec,
      ft_parameters = ts_inputSchema_json tool_spec\<rparr>"

text \<open>
  The dict literal: the four fixed keys, then the configured parameters unpacked over them
  (\<open>**params\<close>: a later key replaces an earlier one).
\<close>

definition base_request ::
  "'p portkey_config \<Rightarrow> formatted_message list \<Rightarrow> ('j, 'p) request" where
  "base_request config ms =
     [''messages'' \<mapsto> VMessages ms,
      ''model'' \<mapsto> VStr (model_id config),
      ''stream'' \<mapsto> VBool True,
      ''stream_options'' \<mapsto> VOptions [(''include_usage'', True)]]
     ++ (case params config of
           None \<Rightarrow> Map.empty
         | Some ps \<Rightarrow> (\<lambda>k. map_option VParam (ps k)))"

text \<open>
  \<open>if tool_specs:\<close> holds for a non-empty list only. A tool choice is a dict with one
  key, so \<open>if tool_choice:\<close> holds exactly when the argument is not \<open>None\<close>.
\<close>

definition format_request ::
  "'j pylib \<Rightarrow> 'p portkey_config \<Rightarrow> 'j message list \<Rightarrow> 'j tool_spec list option \<Rightarrow> string option
     \<Rightarrow> tool_choice option \<Rightarrow> system_content_block list option \<Rightarrow> exn + ('j, 'p) request" where
  "format_request lib config messages tool_specs system_prompt tool_choice system_prompt_content =
     (case format_request_messages lib messages system_prompt system_prompt_content of
        Inl e \<Rightarrow> Inl e
      | Inr ms \<Rightarrow>
          (let request = base_request config ms in
           if tool_specs \<noteq> None \<and> tool_specs \<noteq> Some [] then
             (let request = request(''tools'' \<mapsto> VTools (map format_tool_spec (the tool_specs))) in
              case tool_choice of
                Some tc \<Rightarrow> Inr (request(''tool_choice'' \<mapsto> VToolChoice (format_tool_choice tc)))
              | None \<Rightarrow> Inr request)
           else Inr request))"

section \<open>Raw chunks of the gateway's stream\<close>

text \<open>
  The objects the gateway client yields. An attribute that is \<open>None\<close> (or, for
  \<open>reasoning_content\<close>, missing) is \<open>None\<close>; \<open>choices\<close> that is missing, \<open>None\<close> or
  empty is the empty list.
\<close>

record function_delta =
  fn_name :: "string option"
  fn_arguments :: "string option"

record tool_call_delta =
  tc_index :: int
  tc_id :: "string option"
  tc_function :: "function_delta option"

record choice_delta =
  d_content :: "string option"
  d_reasoning_content :: "string option"
  d_tool_calls :: "tool_call_delta list option"

record choice =
  c_delta :: choice_delta
  c_finish_reason :: "string option"

record usage =
  prompt_tokens :: int
  completion_tokens :: int
  total_tokens :: int

record chunk =
  ch_choices :: "choice list"
  ch_usage :: "usage option"

section \<open>Chunk translator (\<open>format_chunk\<close>)\<close>

text \<open>The value under the key \<open>data\<close> of the dict given to \<open>format_chunk\<close>.\<close>

datatype chunk_data =
    DataNone
  | DataStr string
  | DataTool tool_call_delta
  | DataUsage usage

record raw_event =
  chunk_type :: string
  data_type :: "string option"
  data :: "chunk_data option"

record tool_use_start =
  start_name :: "string option"
  start_toolUseId :: "string option"

datatype delta_body =
    DeltaText chunk_data
  | DeltaReasoning chunk_data
  | DeltaToolUse string

text \<open>
  The canonical events. \<open>ContentBlockStart None\<close> is the empty start \<open>{"start": {}}\<close>;
  \<open>Metadata i o t l\<close> has the three token counts and the latency.
\<close>

datatype stream_event =
    MessageStart string
  | ContentBlockStart "tool_use_start option"
  | ContentBlockDelta delta_body
  | ContentBlockStop
  | MessageStop string
  | Metadata int int int int

text \<open>Python's truth value of an optional string: \<open>None\<close> and the empty string are false.\<close>

fun truthy :: "string option \<Rightarrow> bool" where
  "truthy None = False"
| "truthy (Some s) = (s \<noteq> [])"

text \<open>\<open>x or ""\<close> for an optional string \<open>x\<close>.\<close>

fun or_empty :: "string option \<Rightarrow> string" where
  "or_empty None = []"
| "or_empty (Some s) = s"

text \<open>\<open>event["data"].function\<close>, for the two places that read an attribute from it.\<close>

definition data_function :: "raw_event \<Rightarrow> exn + (tool_call_delta \<times> function_delta)" where
  "data_function event =
     (case data event of
        None \<Rightarrow> Inl (KeyError ''data'')
      | Some (DataTool tc) \<Rightarrow>
          (case tc_function tc of
             None \<Rightarrow> Inl (AttributeError ''NoneType object has no attribute'')
           | Some f \<Rightarrow> Inr (tc, f))
      | Some d \<Rightarrow> Inl (AttributeError ''function''))"

definition format_chunk :: "raw_event \<Rightarrow> exn + stream_event" where
  "format_chunk event =
     (if chunk_type event = ''message_start'' then Inr (MessageStart ''assistant'')
      else if chunk_type event = ''content_start'' then
        (case data_type event of
           None \<Rightarrow> Inl (KeyError ''data_type'')
         | Some dt \<Rightarrow>
             if dt = ''tool'' then
               (case data_function event of
                  Inl e \<Rightarrow> Inl e
                | Inr (tc, f) \<Rightarrow>
                    Inr (ContentBlockStart
                           (Some \<lparr>start_name = fn_name f, start_toolUseId = tc_id tc\<rparr>)))
             else Inr (ContentBlockStart None))
      else if chunk_type event = ''content_delta'' then
        (case data_type event of
           None \<Rightarrow> Inl (KeyError ''data_type'')
         | Some dt \<Rightarrow>
             if dt = ''tool'' then
               (case data_function event of
                  Inl e \<Rightarrow> Inl e
                | Inr (tc, f) \<Rightarrow> Inr (ContentBlockDelta (DeltaToolUse (or_empty (fn_arguments f)))))
             else
               (case data event of
                  None \<Rightarrow> Inl (KeyError ''data'')
                | Some d \<Rightarrow>
                    if dt = ''reasoning_content'' then Inr (ContentBlockDelta (DeltaReasoning d))
                    else Inr (ContentBlockDelta (DeltaText d))))
      else if chunk_type event = ''content_stop'' then Inr ContentBlockStop
      else if chunk_type event = ''message_stop'' then
        (case data event of
           None \<Rightarrow> Inl (KeyError ''data'')
         | Some d \<Rightarrow>
             if d = DataStr ''tool_calls'' then Inr (MessageStop ''tool_use'')
             else if d = DataStr ''length'' then Inr (MessageStop ''max_tokens'')
             else Inr (MessageStop ''end_turn''))
      else if chunk_type event = ''metadata'' then
        (case data event of
           None \<Rightarrow> Inl (KeyError ''data'')
         | Some (DataUsage u) \<Rightarrow>
             Inr (Metadata (prompt_tokens u) (completion_tokens u) (total_tokens u) 0)
         | Some d \<Rightarrow> Inl (AttributeError ''prompt_tokens''))
      else Inl (RuntimeError (''chunk_type=<'' @ chunk_type event @ ''> | unknown type'')))"

section \<open>Streaming orchestrator (\<open>PortkeyModel.stream\<close>)\<close>

text \<open>
  A run of the generator: the events it has yielded, in order, and how it went on:
  \<open>Inl e\<close> when it raised \<open>e\<close> after them, \<open>Inr x\<close> when it went on with the value \<open>x\<close>.
\<close>

type_synonym 'a gen = "stream_event list \<times> (exn + 'a)"

definition greturn :: "'a \<Rightarrow> 'a gen" where
  "greturn x = ([], Inr x)"

definition graise :: "exn \<Rightarrow> 'a gen" where
  "graise e = ([], Inl e)"

definition gbind :: "'a gen \<Rightarrow> ('a \<Rightarrow> 'b gen) \<Rightarrow> 'b gen" where
  "gbind m f =
     (case m of
        (evs, Inl e) \<Rightarrow> (evs, Inl e)
      | (evs, Inr x) \<Rightarrow> (case f x of (evs', r) \<Rightarrow> (evs @ evs', r)))"

text \<open>\<open>yield format_chunk(event)\<close>\<close>

definition yield_chunk :: "raw_event \<Rightarrow> unit gen" where
  "yield_chunk event = (case format_chunk event of Inl e \<Rightarrow> graise e | Inr ev \<Rightarrow> ([ev], Inr ()))"

text \<open>
  The local variables of \<open>stream\<close> that outlive the first loop. \<open>event\<close> and \<open>choice\<close> are
  unbound (\<open>None\<close>) until the loop assigns them. \<open>tool_calls\<close> is a dict, which keeps its
  keys in the order of their insertion: an association list, new keys at the end.
\<close>

record locals =
  l_event :: "chunk option"
  l_choice :: "choice option"
  l_tool_calls :: "(int \<times> tool_call_delta list) list"

text \<open>\<open>tool_calls.setdefault(tool_call.index, []).append(tool_call)\<close>\<close>

fun setdefault_append ::
  "(int \<times> tool_call_delta list) list \<Rightarrow> tool_call_delta \<Rightarrow> (int \<times> tool_call_delta list) list" where
  "setdefault_append [] tool_call = [(tc_index tool_call, [tool_call])]"
| "setdefault_append ((k, vs) # d) tool_call =
     (if k = tc_index tool_call then (k, vs @ [tool_call]) # d
      else (k, vs) # setdefault_append d tool_call)"

text \<open>\<open>delta.tool_calls or []\<close>\<close>

definition delta_tool_calls :: "choice_delta \<Rightarrow> tool_call_delta list" where
  "delta_tool_calls delta = (case d_tool_calls delta of None \<Rightarrow> [] | Some tcs \<Rightarrow> tcs)"

text \<open>
  The body of the first loop for a chunk that carries choices, up to the test of the
  finish reason.
\<close>

definition process_choice :: "choice \<Rightarrow> locals \<Rightarrow> locals gen" where
  "process_choice ch st =
     (let delta = c_delta ch in
      gbind (if truthy (d_content delta)
             then yield_chunk \<lparr>chunk_type = ''content_delta'', data_type = Some ''text'',
                               data = Some (DataStr (the (d_content delta)))\<rparr>
             else greturn ())
        (\<lambda>u. gbind (if truthy (d_reasoning_content delta)
                     then yield_chunk \<lparr>chunk_type = ''content_delta'',
                                       data_type = Some ''reasoning_content'',
                                       data = Some (DataStr (the (d_reasoning_content delta)))\<rparr>
                     else greturn ())
          (\<lambda>u. greturn (st\<lparr>l_choice := Some ch,
                            l_tool_calls := foldl setdefault_append (l_tool_calls st)
                                              (delta_tool_calls delta)\<rparr>))))"

text \<open>
  The first loop over the response. It returns the locals and the chunks it has not taken
  from the response: \<open>break\<close> leaves those after the finish-reason chunk.
\<close>

fun content_loop :: "chunk list \<Rightarrow> locals \<Rightarrow> (locals \<times> chunk list) gen" where
  "content_loop [] st = greturn (st, [])"
| "content_loop (event # response) st =
     (case ch_choices event of
        [] \<Rightarrow> content_loop response (st\<lparr>l_event := Some event\<rparr>)
      | ch # others \<Rightarrow>
          gbind (process_choice ch (st\<lparr>l_event := Some event\<rparr>))
            (\<lambda>st'. if truthy (c_finish_reason ch) then greturn (st', response)
                    else content_loop response st'))"

fun yield_all :: "raw_event list \<Rightarrow> unit gen" where
  "yield_all [] = greturn ()"
| "yield_all (r # rs) = gbind (yield_chunk r) (\<lambda>u. yield_all rs)"

text \<open>The events of one accumulated tool call: the body of the loop over \<open>tool_calls.values()\<close>.\<close>

definition flush_tool_call :: "tool_call_delta list \<Rightarrow> unit gen" where
  "flush_tool_call tool_deltas =
     (case tool_deltas of
        [] \<Rightarrow> graise (IndexError ''list index out of range'')
      | first # later \<Rightarrow>
          gbind (yield_chunk \<lparr>chunk_type = ''content_start'', data_type = Some ''tool'',
                              data = Some (DataTool first)\<rparr>)
            (\<lambda>u. gbind (yield_all (map (\<lambda>tool_delta. \<lparr>chunk_type = ''content_delta'',
                                                          data_type = Some ''tool'',
                                                          data = Some (DataTool tool_delta)\<rparr>)
                                      tool_deltas))
              (\<lambda>u. yield_chunk \<lparr>chunk_type = ''content_stop'', data_type = Some ''tool'',
                                  data = None\<rparr>)))"

fun flush_tool_calls :: "(int \<times> tool_call_delta list) list \<Rightarrow> unit gen" where
  "flush_tool_calls [] = greturn ()"
| "flush_tool_calls ((k, tool_deltas) # d) =
     gbind (flush_tool_call tool_deltas) (\<lambda>u. flush_tool_calls d)"

text \<open>The second loop, \<open>for event in response: _ = event\<close>: the value of \<open>event\<close> after it.\<close>

fun drain :: "chunk list \<Rightarrow> chunk option \<Rightarrow> chunk option" where
  "drain [] event = event"
| "drain (e # response) event = drain response (Some e)"

definition finish_data :: "string option \<Rightarrow> chunk_data" where
  "finish_data r = (case r of None \<Rightarrow> DataNone | Some s \<Rightarrow> DataStr s)"

text \<open>The generator from its first \<open>yield\<close> on, over the chunks of the response.\<close>

definition stream_response :: "chunk list \<Rightarrow> unit gen" where
  "stream_response response =
     gbind (yield_chunk \<lparr>chunk_type = ''message_start'', data_type = None, data = None\<rparr>)
    (\<lambda>u. gbind (yield_chunk \<lparr>chunk_type = ''content_start'', data_type = Some ''text'', data = None\<rparr>)
    (\<lambda>u. gbind (content_loop response \<lparr>l_event = None, l_choice = None, l_tool_calls = []\<rparr>)
    (\<lambda>(st, rest). gbind (yield_chunk \<lparr>chunk_type = ''content_stop'', data_type = Some ''text'', data = None\<rparr>)
    (\<lambda>u. gbind (flush_tool_calls (l_tool_calls st))
    (\<lambda>u. gbind (case l_choice st of
                   None \<Rightarrow> graise (UnboundLocalError ''choice'')
                 | Some ch \<Rightarrow> yield_chunk \<lparr>chunk_type = ''message_stop'', data_type = None,
                                            data = Some (finish_data (c_finish_reason ch))\<rparr>)
    (\<lambda>u. case drain rest (l_event st) of
            None \<Rightarrow> graise (UnboundLocalError ''event'')
          | Some event \<Rightarrow>
              (case ch_usage event of
                 Some us \<Rightarrow> yield_chunk \<lparr>chunk_type = ''metadata'', data_type = None,
                                          data = Some (DataUsage us)\<rparr>
               | None \<Rightarrow> greturn ())))))))"

text \<open>
  \<open>stream\<close>: the gateway client's \<open>chat.completions.create\<close> is the function \<open>create\<close>,
  which raises or returns the chunks of the response.
\<close>

definition stream ::
  "'j pylib \<Rightarrow> 'p portkey_config \<Rightarrow> (('j, 'p) request \<Rightarrow> exn + chunk list) \<Rightarrow> 'j message list
     \<Rightarrow> 'j tool_spec list option \<Rightarrow> string option \<Rightarrow> tool_choice option
     \<Rightarrow> system_content_block list option \<Rightarrow> unit gen" where
  "stream lib config create messages tool_specs system_prompt tool_choice system_prompt_content =
     (case format_request lib config messages tool_specs system_prompt tool_choice system_prompt_content of
        Inl e \<Rightarrow> graise e
      | Inr request \<Rightarrow>
          (case create request of
             Inl e \<Rightarrow> graise (reraise_classified lib e)
           | Inr response \<Rightarrow> stream_response response))"

section \<open>Structured-output adapter (\<open>PortkeyModel.structured_output\<close>)\<close>

text \<open>
  A choice of the parsed response carries \<open>message.parsed\<close>: an object or \<open>None\<close>.
  \<open>isinstance(obj, output_model)\<close> is the parameter \<open>isinstance\<close>. The loop keeps the
  first parsed object that is an instance.
\<close>

fun first_parsed :: "('v \<Rightarrow> 'm \<Rightarrow> bool) \<Rightarrow> 'm \<Rightarrow> 'v option list \<Rightarrow> 'v option" where
  "first_parsed isinstance output_model [] = None"
| "first_parsed isinstance output_model (None # choices) =
     first_parsed isinstance output_model choices"
| "first_parsed isinstance output_model (Some v # choices) =
     (if isinstance v output_model then Some v
      else first_parsed isinstance output_model choices)"

text \<open>
  The events of \<open>structured_output\<close> (each \<open>{"output": parsed}\<close> is the object itself) and
  the exception it ends with, if any. \<open>parse\<close> is the gateway client's
  \<open>beta.chat.completions.parse\<close>, given the model id, the messages and the schema; it raises
  or returns the choices' parsed objects. A Pydantic model instance is true, so
  \<open>if parsed:\<close> holds exactly when \<open>parsed\<close> is not \<open>None\<close>.
\<close>

definition structured_output ::
  "'j pylib \<Rightarrow> 'p portkey_config
     \<Rightarrow> (string \<Rightarrow> ('j, 'p) request_value option \<Rightarrow> 'm \<Rightarrow> exn + 'v option list)
     \<Rightarrow> ('v \<Rightarrow> 'm \<Rightarrow> bool) \<Rightarrow> 'm \<Rightarrow> 'j message list \<Rightarrow> string option
     \<Rightarrow> 'v list \<times> exn option" where
  "structured_output lib config parse isinstance output_model prompt system_prompt =
     (case format_request lib config prompt None system_prompt None None of
        Inl e \<Rightarrow> ([], Some e)
      | Inr request \<Rightarrow>
          (case parse (model_id config) (request ''messages'') output_model of
             Inl e \<Rightarrow> ([], Some e)
           | Inr choices \<Rightarrow>
               if length choices > 1
               then ([], Some (ValueError ''Multiple choices found in the response.''))
               else
                 (case first_parsed isinstance output_model choices of
                    Some parsed \<Rightarrow> ([parsed], None)
                  | None \<Rightarrow>
                      ([], Some (ValueError ''No valid structured output was found in the response.'')))))"

section \<open>Notions used to state the properties of a run\<close>

text \<open>A chunk that ends the first loop: it carries choices and its first choice a finish reason.\<close>

definition carries_finish :: "chunk \<Rightarrow> bool" where
  "carries_finish c =
     (case ch_choices c of [] \<Rightarrow> False | ch # others \<Rightarrow> truthy (c_finish_reason ch))"

text \<open>
  The content phase of a response: its chunks up to and including the first one that
  carries a finish reason. The trailer: the chunks after that one.
\<close>

fun content_phase :: "chunk list \<Rightarrow> chunk list" where
  "content_phase [] = []"
| "content_phase (c # cs) = (if carries_finish c then [c] else c # content_phase cs)"

fun trailer :: "chunk list \<Rightarrow> chunk list" where
  "trailer [] = []"
| "trailer (c # cs) = (if carries_finish c then cs else trailer cs)"

text \<open>The tool-call fragments of the content phase, in arrival order.\<close>

definition chunk_fragments :: "chunk \<Rightarrow> tool_call_delta list" where
  "chunk_fragments c =
     (case ch_choices c of [] \<Rightarrow> [] | ch # others \<Rightarrow> delta_tool_calls (c_delta ch))"

definition fragments :: "chunk list \<Rightarrow> tool_call_delta list" where
  "fragments response = concat (map chunk_fragments (content_phase response))"

text \<open>The text and reasoning deltas of the content phase, in arrival order.\<close>

definition choice_deltas :: "choice \<Rightarrow> stream_event list" where
  "choice_deltas ch =
     (if truthy (d_content (c_delta ch))
      then [ContentBlockDelta (DeltaText (DataStr (the (d_content (c_delta ch)))))] else [])
     @ (if truthy (d_reasoning_content (c_delta ch))
        then [ContentBlockDelta (DeltaReasoning (DataStr (the (d_reasoning_content (c_delta ch)))))]
        else [])"

definition chunk_deltas :: "chunk \<Rightarrow> stream_event list" where
  "chunk_deltas c = (case ch_choices c of [] \<Rightarrow> [] | ch # others \<Rightarrow> choice_deltas ch)"

definition text_deltas :: "chunk list \<Rightarrow> stream_event list" where
  "text_deltas response = concat (map chunk_deltas (content_phase response))"

text \<open>The first choice of the last chunk that carries choices, if there is one.\<close>

fun last_choice :: "chunk list \<Rightarrow> choice option \<Rightarrow> choice option" where
  "last_choice [] found = found"
| "last_choice (c # cs) found =
     last_choice cs (case ch_choices c of [] \<Rightarrow> found | ch # others \<Rightarrow> Some ch)"

text \<open>The indices in the order in which each is first seen; the fragments of one index.\<close>

definition first_seen :: "int list \<Rightarrow> int list" where
  "first_seen ks = rev (remdups (rev ks))"

definition fragments_of :: "int \<Rightarrow> tool_call_delta list \<Rightarrow> tool_call_delta list" where
  "fragments_of i frs = filter (\<lambda>tc. tc_index tc = i) frs"

definition by_first_arrival :: "tool_call_delta list \<Rightarrow> (int \<times> tool_call_delta list) list" where
  "by_first_arrival frs = map (\<lambda>i. (i, fragments_of i frs)) (first_seen (map tc_index frs))"

text \<open>The order the specification names: ascending index.\<close>

definition by_ascending_index :: "tool_call_delta list \<Rightarrow> (int \<times> tool_call_delta list) list" where
  "by_ascending_index frs = map (\<lambda>i. (i, fragments_of i frs)) (sort (remdups (map tc_index frs)))"

text \<open>
  The arguments string of a raw fragment, the empty string when it has none; and the
  block of events of one tool call: a start from the first fragment, one delta for each
  fragment, a stop.
\<close>

definition fragment_arguments :: "tool_call_delta \<Rightarrow> string" where
  "fragment_arguments tc =
     (case tc_function tc of None \<Rightarrow> [] | Some f \<Rightarrow> or_empty (fn_arguments f))"

definition fragment_name :: "tool_call_delta \<Rightarrow> string option" where
  "fragment_name tc = (case tc_function tc of None \<Rightarrow> None | Some f \<Rightarrow> fn_name f)"

fun tool_block :: "tool_call_delta list \<Rightarrow> stream_event list" where
  "tool_block [] = []"
| "tool_block (first # later) =
     ContentBlockStart (Some \<lparr>start_name = fragment_name first, start_toolUseId = tc_id first\<rparr>)
     # map (\<lambda>tc. ContentBlockDelta (DeltaToolUse (fragment_arguments tc))) (first # later)
     @ [ContentBlockStop]"

definition tool_blocks :: "(int \<times> tool_call_delta list) list \<Rightarrow> stream_event list" where
  "tool_blocks d = concat (map (\<lambda>(i, frs). tool_block frs) d)"

definition stop_reason :: "string option \<Rightarrow> string" where
  "stop_reason r =
     (if r = Some ''tool_calls'' then ''tool_use''
      else if r = Some ''length'' then ''max_tokens''
      else ''end_turn'')"

text \<open>The Metadata event of a usage object, and the events after MessageStop.\<close>

definition usage_event :: "usage \<Rightarrow> stream_event" where
  "usage_event us = Metadata (prompt_tokens us) (completion_tokens us) (total_tokens us) 0"

definition metadata_events :: "chunk list \<Rightarrow> stream_event list" where
  "metadata_events response =
     (case ch_usage (last response) of None \<Rightarrow> [] | Some us \<Rightarrow> [usage_event us])"

text \<open>Kinds of events.\<close>

fun is_metadata :: "stream_event \<Rightarrow> bool" where
  "is_metadata (Metadata i out t l) = True"
| "is_metadata ev = False"

fun is_message_stop :: "stream_event \<Rightarrow> bool" where
  "is_message_stop (MessageStop r) = True"
| "is_message_stop ev = False"

fun is_content_event :: "stream_event \<Rightarrow> bool" where
  "is_content_event (ContentBlockStart s) = True"
| "is_content_event (ContentBlockDelta d) = True"
| "is_content_event ContentBlockStop = True"
| "is_content_event ev = False"

fun is_text_delta :: "stream_event \<Rightarrow> bool" where
  "is_text_delta (ContentBlockDelta (DeltaText d)) = True"
| "is_text_delta (ContentBlockDelta (DeltaReasoning d)) = True"
| "is_text_delta ev = False"

fun is_tool_event :: "stream_event \<Rightarrow> bool" where
  "is_tool_event (ContentBlockStart (Some s)) = True"
| "is_tool_event (ContentBlockDelta (DeltaToolUse a)) = True"
| "is_tool_event ContentBlockStop = True"
| "is_tool_event ev = False"


definition has_system_message :: "formatted_message list \<Rightarrow> bool" where
  "has_system_message ms = list_ex (\<lambda>m. fm_role m = RoleSystem) ms"

text \<open>An accumulator every call of which can be flushed: no call is empty and every fragment has a function object.\<close>

definition flushable :: "(int \<times> tool_call_delta list) list \<Rightarrow> bool" where
  "flushable d = (\<forall>(k, frs)\<in>set d. frs \<noteq> [] \<and> (\<forall>tc\<in>set frs. tc_function tc \<noteq> None))"

text \<open>Some chunk carries a usage object; and the chunks with their usage objects removed.\<close>

definition usage_observed :: "chunk list \<Rightarrow> bool" where
  "usage_observed cs = list_ex (\<lambda>c. ch_usage c \<noteq> None) cs"

definition without_usage :: "chunk list \<Rightarrow> chunk list" where
  "without_usage cs = map (\<lambda>c. c\<lparr>ch_usage := None\<rparr>) cs"

text \<open>
  The value under a key of the request that \<open>format_request\<close> returns (\<open>None\<close>: the key is
  absent, or no request is returned), and the value under a key of the configured extra
  parameters.
\<close>

definition sent_value :: "string \<Rightarrow> exn + ('j, 'p) request \<Rightarrow> ('j, 'p) request_value option" where
  "sent_value k result = (case result of Inl e \<Rightarrow> None | Inr request \<Rightarrow> request k)"

definition param_value :: "'p portkey_config \<Rightarrow> string \<Rightarrow> 'p option" where
  "param_value config k = (case params config of None \<Rightarrow> None | Some ps \<Rightarrow> ps k)"

section \<open>Example inputs\<close>

text \<open>\<open>str.lower\<close> on the ASCII letters; every other character is left as it is.\<close>

definition ascii_lower_char :: "char \<Rightarrow> char" where
  "ascii_lower_char c =
     (case map_of (zip ''ABCDEFGHIJKLMNOPQRSTUVWXYZ'' ''abcdefghijklmnopqrstuvwxyz'') c of
        None \<Rightarrow> c
      | Some l \<Rightarrow> l)"

definition ascii_lower :: "string \<Rightarrow> string" where
  "ascii_lower s = map ascii_lower_char s"

text \<open>
  A library whose JSON values are strings that serialise to themselves, and a configuration
  without extra parameters.
\<close>

definition example_lib :: "string pylib" where
  "example_lib =
     \<lparr>str_lower = ascii_lower, types_map = Map.empty, b64encode = (\<lambda>b. b), json_dumps = (\<lambda>j. j)\<rparr>"

definition example_config :: "string portkey_config" where
  "example_config = \<lparr>model_id = ''gpt-4o'', params = None\<rparr>"

text \<open>Chunks as the tests build them: a chunk with one choice, a chunk with usage only, a keepalive chunk.\<close>

definition text_chunk :: "string option \<Rightarrow> string option \<Rightarrow> chunk" where
  "text_chunk content finish_reason =
     \<lparr>ch_choices = [\<lparr>c_delta = \<lparr>d_content = content, d_reasoning_content = None, d_tool_calls = None\<rparr>,
                      c_finish_reason = finish_reason\<rparr>],
      ch_usage = None\<rparr>"

definition tool_chunk :: "tool_call_delta list \<Rightarrow> chunk" where
  "tool_chunk tcs =
     \<lparr>ch_choices = [\<lparr>c_delta = \<lparr>d_content = None, d_reasoning_content = None, d_tool_calls = Some tcs\<rparr>,
                      c_finish_reason = None\<rparr>],
      ch_usage = None\<rparr>"

definition usage_chunk :: "int \<Rightarrow> int \<Rightarrow> int \<Rightarrow> chunk" where
  "usage_chunk i out t =
     \<lparr>ch_choices = [],
      ch_usage = Some \<lparr>prompt_tokens = i, completion_tokens = out, total_tokens = t\<rparr>\<rparr>"

definition keepalive_chunk :: chunk where
  "keepalive_chunk = \<lparr>ch_choices = [], ch_usage = None\<rparr>"

definition fragment :: "int \<Rightarrow> string option \<Rightarrow> string option \<Rightarrow> string option \<Rightarrow> tool_call_delta" where
  "fragment i ident name arguments =
     \<lparr>tc_index = i, tc_id = ident,
      tc_function = Some \<lparr>fn_name = name, fn_arguments = arguments\<rparr>\<rparr>"

text \<open>
  A response whose tool-call fragments arrive out of index order (index 1 before index 0),
  and the response of scenario B.
\<close>

definition out_of_order_response :: "chunk list" where
  "out_of_order_response =
     [tool_chunk [fragment 1 (Some ''t2'') (Some ''calc'') (Some ''{x:'')],
      tool_chunk [fragment 0 (Some ''t1'') (Some ''search'') (Some ''{q:2}'')],
      tool_chunk [fragment 1 None None (Some ''1}'')],
      text_chunk None (Some ''tool_calls''),
      usage_chunk 10 20 30]"

definition scenario_b_response :: "chunk list" where
  "scenario_b_response =
     [text_chunk (Some ''Hello'') None,
      text_chunk (Some '' world'') None,
      text_chunk None (Some ''stop''),
      usage_chunk 10 5 15]"

section \<open>Error classifier: properties\<close>

lemma starts_with_prefix: "starts_with p s \<longleftrightarrow> prefix p s"
  by (induction p s rule: starts_with.induct) simp_all

lemma str_in_sublist: "str_in p s \<longleftrightarrow> sublist p s"
  by (induction s) (simp_all add: starts_with_prefix sublist_Cons_right)

lemma format_request_empty:
  "\<exists>request. format_request lib config [] None sp None spc = Inr request"
  by (simp add: format_request_def format_request_messages_def)

text \<open>
  C5. When the gateway call raises \<open>e\<close>, the stream yields no event and raises: a
  context-window overflow exception (with the message of \<open>e\<close> and \<open>e\<close> as its cause) if the
  lowercased message contains one of the six overflow fragments; otherwise a throttling
  exception (same message, same cause) if it contains \<open>rate\<close>, \<open>429\<close>, \<open>overloaded\<close> or
  \<open>529\<close>; otherwise \<open>e\<close> itself, unchanged. This holds whatever function \<open>str.lower\<close> is;
  \<open>sublist p s\<close> says that \<open>p\<close> occurs in \<open>s\<close>.
\<close>

theorem stream_classifies_gateway_error:
  assumes "format_request lib config messages tool_specs system_prompt tool_choice system_prompt_content = Inr request"
    and "create request = Inl e"
  shows "stream lib config create messages tool_specs system_prompt tool_choice system_prompt_content =
           ([], Inl (if sublist ''prompt is too long'' (str_lower lib (str_exn e))
                        \<or> sublist ''input is too long'' (str_lower lib (str_exn e))
                        \<or> sublist ''maximum context length'' (str_lower lib (str_exn e))
                        \<or> sublist ''context window'' (str_lower lib (str_exn e))
                        \<or> sublist ''context length exceeded'' (str_lower lib (str_exn e))
                        \<or> sublist ''too many tokens'' (str_lower lib (str_exn e))
                     then ContextWindowOverflowException (str_exn e) e
                     else if sublist ''rate'' (str_lower lib (str_exn e)) \<or> sublist ''429'' (str_lower lib (str_exn e))
                             \<or> sublist ''overloaded'' (str_lower lib (str_exn e)) \<or> sublist ''529'' (str_lower lib (str_exn e))
                     then ModelThrottledException (str_exn e) e
                     else e))"
  using assms
  by (simp add: stream_def graise_def reraise_classified_def handle_api_error_def Let_def
        CONTEXT_WINDOW_OVERFLOW_MESSAGES_def str_in_sublist)

text \<open>The three error texts of scenario E.\<close>

theorem stream_classifies_gateway_error_witness:
  "stream example_lib example_config (\<lambda>request. Inl (GatewayError ''Error code: 429 - Too Many Requests''))
      [] None None None None =
     ([], Inl (ModelThrottledException ''Error code: 429 - Too Many Requests''
                 (GatewayError ''Error code: 429 - Too Many Requests'')))
   \<and> stream example_lib example_config (\<lambda>request. Inl (GatewayError ''maximum context length exceeded''))
      [] None None None None =
     ([], Inl (ContextWindowOverflowException ''maximum context length exceeded''
                 (GatewayError ''maximum context length exceeded'')))
   \<and> stream example_lib example_config (\<lambda>request. Inl (GatewayError ''disk full''))
      [] None None None None =
     ([], Inl (GatewayError ''disk full''))"
proof -
  obtain request :: "(string, string) request" where
    r: "format_request example_lib example_config [] None None None None = Inr request"
    using format_request_empty by blast
  have a: "str_lower example_lib ''Error code: 429 - Too Many Requests''
             = ''error code: 429 - too many requests''"
    by (simp add: example_lib_def ascii_lower_def ascii_lower_char_def)
  have b: "str_lower example_lib ''maximum context length exceeded'' = ''maximum context length exceeded''"
    by (simp add: example_lib_def ascii_lower_def ascii_lower_char_def)
  have c: "str_lower example_lib ''disk full'' = ''disk full''"
    by (simp add: example_lib_def ascii_lower_def ascii_lower_char_def)
  show ?thesis
    using stream_classifies_gateway_error [OF r, of "\<lambda>request. Inl (GatewayError ''Error code: 429 - Too Many Requests'')" "GatewayError ''Error code: 429 - Too Many Requests''"]
      stream_classifies_gateway_error [OF r, of "\<lambda>request. Inl (GatewayError ''maximum context length exceeded'')" "GatewayError ''maximum context length exceeded''"]
      stream_classifies_gateway_error [OF r, of "\<lambda>request. Inl (GatewayError ''disk full'')" "GatewayError ''disk full''"]
    by (simp add: a b c str_in_sublist [symmetric])
qed

section \<open>The generator: auxiliary facts\<close>

lemma gbind_Inr: "gbind (evs, Inr x) f = (evs @ fst (f x), snd (f x))"
  by (simp add: gbind_def split: prod.splits)

lemma gbind_Inl: "gbind (evs, Inl e) f = (evs, Inl e)"
  by (simp add: gbind_def)

lemma gbind_greturn: "gbind (greturn x) f = f x"
  by (simp add: gbind_def greturn_def split: prod.splits)

lemma yield_message_start:
  "yield_chunk \<lparr>chunk_type = ''message_start'', data_type = dt, data = d\<rparr> = ([MessageStart ''assistant''], Inr ())"
  by (simp add: yield_chunk_def format_chunk_def)

lemma yield_content_start_text:
  "yield_chunk \<lparr>chunk_type = ''content_start'', data_type = Some ''text'', data = d\<rparr> = ([ContentBlockStart None], Inr ())"
  by (simp add: yield_chunk_def format_chunk_def)

lemma yield_content_stop:
  "yield_chunk \<lparr>chunk_type = ''content_stop'', data_type = dt, data = d\<rparr> = ([ContentBlockStop], Inr ())"
  by (simp add: yield_chunk_def format_chunk_def)

lemma yield_text_delta:
  "yield_chunk \<lparr>chunk_type = ''content_delta'', data_type = Some ''text'', data = Some d\<rparr>
     = ([ContentBlockDelta (DeltaText d)], Inr ())"
  by (simp add: yield_chunk_def format_chunk_def)

lemma yield_reasoning_delta:
  "yield_chunk \<lparr>chunk_type = ''content_delta'', data_type = Some ''reasoning_content'', data = Some d\<rparr>
     = ([ContentBlockDelta (DeltaReasoning d)], Inr ())"
  by (simp add: yield_chunk_def format_chunk_def)

lemma yield_message_stop:
  "yield_chunk \<lparr>chunk_type = ''message_stop'', data_type = dt, data = Some (finish_data r)\<rparr>
     = ([MessageStop (stop_reason r)], Inr ())"
  by (cases r) (simp_all add: yield_chunk_def format_chunk_def finish_data_def stop_reason_def)

lemma yield_metadata:
  "yield_chunk \<lparr>chunk_type = ''metadata'', data_type = dt, data = Some (DataUsage us)\<rparr>
     = ([usage_event us], Inr ())"
  by (simp add: yield_chunk_def format_chunk_def usage_event_def)

lemma yield_tool_start:
  "yield_chunk \<lparr>chunk_type = ''content_start'', data_type = Some ''tool'', data = Some (DataTool tc)\<rparr>
     = (case tc_function tc of
          None \<Rightarrow> ([], Inl (AttributeError ''NoneType object has no attribute''))
        | Some f \<Rightarrow> ([ContentBlockStart (Some \<lparr>start_name = fragment_name tc, start_toolUseId = tc_id tc\<rparr>)], Inr ()))"
  by (simp add: yield_chunk_def format_chunk_def data_function_def graise_def fragment_name_def
        split: option.splits)

lemma yield_tool_delta:
  "yield_chunk \<lparr>chunk_type = ''content_delta'', data_type = Some ''tool'', data = Some (DataTool tc)\<rparr>
     = (case tc_function tc of
          None \<Rightarrow> ([], Inl (AttributeError ''NoneType object has no attribute''))
        | Some f \<Rightarrow> ([ContentBlockDelta (DeltaToolUse (fragment_arguments tc))], Inr ()))"
  by (simp add: yield_chunk_def format_chunk_def data_function_def graise_def fragment_arguments_def
        split: option.splits)

lemma process_choice_eq:
  "process_choice ch st =
     (choice_deltas ch,
      Inr (st\<lparr>l_choice := Some ch,
              l_tool_calls := foldl setdefault_append (l_tool_calls st) (delta_tool_calls (c_delta ch))\<rparr>))"
  by (simp add: process_choice_def Let_def choice_deltas_def yield_text_delta yield_reasoning_delta
        gbind_Inr gbind_greturn greturn_def)

lemma content_loop_eq:
  "content_loop response st =
     (text_deltas response,
      Inr (\<lparr>l_event = drain (content_phase response) (l_event st),
            l_choice = last_choice (content_phase response) (l_choice st),
            l_tool_calls = foldl setdefault_append (l_tool_calls st) (fragments response)\<rparr>,
           trailer response))"
proof (induction response arbitrary: st)
  case Nil
  show ?case by (simp add: greturn_def text_deltas_def fragments_def)
next
  case (Cons c cs)
  show ?case
  proof (cases "ch_choices c")
    case Nil
    then show ?thesis
      using Cons.IH [of "st\<lparr>l_event := Some c\<rparr>"]
      by (simp add: carries_finish_def text_deltas_def fragments_def chunk_deltas_def chunk_fragments_def)
  next
    case (Cons ch others)
    then show ?thesis
      using Cons.IH [of "st\<lparr>l_event := Some c, l_choice := Some ch,
              l_tool_calls := foldl setdefault_append (l_tool_calls st) (delta_tool_calls (c_delta ch))\<rparr>"]
      by (simp add: carries_finish_def text_deltas_def fragments_def chunk_deltas_def chunk_fragments_def
            process_choice_eq gbind_Inr greturn_def)
  qed
qed


lemma yield_all_tool_deltas:
  "\<forall>tc\<in>set frs. tc_function tc \<noteq> None \<Longrightarrow>
   yield_all (map (\<lambda>tool_delta. \<lparr>chunk_type = ''content_delta'', data_type = Some ''tool'',
                                   data = Some (DataTool tool_delta)\<rparr>) frs)
     = (map (\<lambda>tc. ContentBlockDelta (DeltaToolUse (fragment_arguments tc))) frs, Inr ())"
  by (induction frs) (auto simp: greturn_def yield_tool_delta gbind_Inr)

lemma yield_all_tool_deltas_returns:
  "yield_all (map (\<lambda>tool_delta. \<lparr>chunk_type = ''content_delta'', data_type = Some ''tool'',
                                   data = Some (DataTool tool_delta)\<rparr>) frs) = (evs, Inr u)
   \<Longrightarrow> \<forall>tc\<in>set frs. tc_function tc \<noteq> None"
proof (induction frs arbitrary: evs)
  case Nil
  then show ?case by simp
next
  case (Cons tc frs)
  show ?case
  proof (cases "tc_function tc")
    case None
    with Cons.prems show ?thesis by (simp add: yield_tool_delta gbind_Inl)
  next
    case (Some f)
    with Cons.prems have "snd (yield_all (map (\<lambda>tool_delta. \<lparr>chunk_type = ''content_delta'', data_type = Some ''tool'',
                                   data = Some (DataTool tool_delta)\<rparr>) frs)) = Inr u"
      by (simp add: yield_tool_delta gbind_Inr)
    then have "\<forall>tc\<in>set frs. tc_function tc \<noteq> None"
      using Cons.IH by (metis prod.collapse)
    with Some show ?thesis by simp
  qed
qed

lemma flush_tool_call_ok:
  "frs \<noteq> [] \<Longrightarrow> \<forall>tc\<in>set frs. tc_function tc \<noteq> None \<Longrightarrow>
   flush_tool_call frs = (tool_block frs, Inr ())"
  by (cases frs)
     (auto simp: flush_tool_call_def yield_tool_start yield_all_tool_deltas gbind_Inr yield_content_stop
           yield_tool_delta split: option.splits)

lemma flush_tool_call_returns:
  assumes "flush_tool_call frs = (evs, Inr u)"
  shows "frs \<noteq> [] \<and> (\<forall>tc\<in>set frs. tc_function tc \<noteq> None)"
proof (cases frs)
  case Nil
  with assms show ?thesis by (simp add: flush_tool_call_def graise_def)
next
  case (Cons first later)
  show ?thesis
  proof (cases "tc_function first")
    case None
    with assms Cons show ?thesis
      by (simp add: flush_tool_call_def yield_tool_start gbind_Inl)
  next
    case (Some f)
    obtain devs dr where d: "yield_all (map (\<lambda>tool_delta. \<lparr>chunk_type = ''content_delta'', data_type = Some ''tool'',
                                   data = Some (DataTool tool_delta)\<rparr>) frs) = (devs, dr)"
      by (cases "yield_all (map (\<lambda>tool_delta. \<lparr>chunk_type = ''content_delta'', data_type = Some ''tool'',
                                   data = Some (DataTool tool_delta)\<rparr>) frs)") simp
    have "\<exists>u'. dr = Inr u'"
    proof (cases dr)
      case (Inl e)
      with assms Cons Some d show ?thesis
        by (simp add: flush_tool_call_def yield_tool_start gbind_Inr gbind_Inl)
    next
      case (Inr u')
      then show ?thesis by simp
    qed
    with d have "\<forall>tc\<in>set frs. tc_function tc \<noteq> None"
      using yield_all_tool_deltas_returns by blast
    with Cons show ?thesis by simp
  qed
qed

lemma flush_tool_calls_ok:
  "flushable d \<Longrightarrow> flush_tool_calls d = (tool_blocks d, Inr ())"
  by (induction d) (auto simp: flushable_def greturn_def tool_blocks_def flush_tool_call_ok gbind_Inr)

lemma flush_tool_calls_returns:
  "flush_tool_calls d = (evs, Inr u) \<Longrightarrow> flushable d"
proof (induction d arbitrary: evs)
  case Nil
  then show ?case by (simp add: flushable_def)
next
  case (Cons kv d)
  obtain k frs where kv: "kv = (k, frs)" by (cases kv)
  obtain fevs fr where f: "flush_tool_call frs = (fevs, fr)" by (cases "flush_tool_call frs")
  show ?case
  proof (cases fr)
    case (Inl e)
    with Cons.prems kv f show ?thesis by (simp add: gbind_Inl)
  next
    case (Inr u')
    with Cons.prems kv f have "snd (flush_tool_calls d) = Inr u"
      by (simp add: gbind_Inr)
    then have "flushable d" using Cons.IH by (metis prod.collapse)
    moreover have "frs \<noteq> [] \<and> (\<forall>tc\<in>set frs. tc_function tc \<noteq> None)"
      using flush_tool_call_returns f Inr by blast
    ultimately show ?thesis using kv by (simp add: flushable_def)
  qed
qed


lemma first_seen_snoc:
  "first_seen (ks @ [k]) = (if k \<in> set ks then first_seen ks else first_seen ks @ [k])"
  by (simp add: first_seen_def)

lemma set_first_seen: "set (first_seen ks) = set ks"
  by (simp add: first_seen_def)

lemma distinct_first_seen: "distinct (first_seen ks)"
  by (simp add: first_seen_def)

lemma setdefault_append_map:
  "distinct ks \<Longrightarrow>
   setdefault_append (map (\<lambda>i. (i, g i)) ks) x =
     (if tc_index x \<in> set ks
      then map (\<lambda>i. (i, if i = tc_index x then g i @ [x] else g i)) ks
      else map (\<lambda>i. (i, g i)) ks @ [(tc_index x, [x])])"
  by (induction ks) auto

lemma fragments_of_snoc:
  "fragments_of i (frs @ [x]) = (if tc_index x = i then fragments_of i frs @ [x] else fragments_of i frs)"
  by (simp add: fragments_of_def)

lemma fragments_of_absent: "i \<notin> tc_index ` set frs \<Longrightarrow> fragments_of i frs = []"
  by (auto simp: fragments_of_def filter_empty_conv)

lemma by_first_arrival_snoc:
  "setdefault_append (by_first_arrival frs) x = by_first_arrival (frs @ [x])"
proof (cases "tc_index x \<in> tc_index ` set frs")
  case True
  then show ?thesis
    unfolding by_first_arrival_def
    by (subst setdefault_append_map)
       (auto simp: distinct_first_seen set_first_seen first_seen_snoc fragments_of_snoc)
next
  case False
  then show ?thesis
    unfolding by_first_arrival_def
    by (subst setdefault_append_map)
       (auto simp: distinct_first_seen set_first_seen first_seen_snoc fragments_of_snoc
             fragments_of_absent)
qed

lemma accumulate_by_first_arrival:
  "foldl setdefault_append [] frs = by_first_arrival frs"
proof (induction frs rule: rev_induct)
  case Nil
  show ?case by (simp add: by_first_arrival_def first_seen_def)
next
  case (snoc x xs)
  then show ?case by (simp add: by_first_arrival_snoc)
qed

lemma flushable_by_first_arrival:
  "flushable (by_first_arrival frs) \<longleftrightarrow> (\<forall>tc\<in>set frs. tc_function tc \<noteq> None)"
proof
  assume f: "flushable (by_first_arrival frs)"
  show "\<forall>tc\<in>set frs. tc_function tc \<noteq> None"
  proof
    fix tc assume tc: "tc \<in> set frs"
    then have "(tc_index tc, fragments_of (tc_index tc) frs) \<in> set (by_first_arrival frs)"
      by (auto simp: by_first_arrival_def set_first_seen)
    moreover have "tc \<in> set (fragments_of (tc_index tc) frs)"
      using tc by (simp add: fragments_of_def)
    ultimately show "tc_function tc \<noteq> None"
      using f unfolding flushable_def by blast
  qed
next
  assume a: "\<forall>tc\<in>set frs. tc_function tc \<noteq> None"
  show "flushable (by_first_arrival frs)"
    unfolding flushable_def by_first_arrival_def
    using a by (auto simp: set_first_seen fragments_of_def filter_empty_conv)
qed

lemma drain_eq: "drain cs e = (if cs = [] then e else Some (last cs))"
  by (induction cs arbitrary: e) simp_all

lemma phase_trailer: "content_phase cs @ trailer cs = cs"
  by (induction cs) simp_all

lemma drain_append: "drain (xs @ ys) e = drain ys (drain xs e)"
  by (induction xs arbitrary: e) simp_all

lemma drain_phase_trailer: "drain (trailer cs) (drain (content_phase cs) e) = drain cs e"
  using drain_append [of "content_phase cs" "trailer cs" e] by (simp add: phase_trailer)

lemma last_choice_Some_nonempty: "last_choice cs None = Some ch \<Longrightarrow> cs \<noteq> []"
  by (cases cs) simp_all

lemma content_phase_nonempty: "content_phase cs = [] \<longleftrightarrow> cs = []"
  by (cases cs) simp_all

text \<open>The run of the generator, in general.\<close>

lemma stream_response_unfold:
  "stream_response response =
     (case flush_tool_calls (by_first_arrival (fragments response)) of
        (fevs, Inl e) \<Rightarrow>
          ([MessageStart ''assistant'', ContentBlockStart None] @ text_deltas response
             @ [ContentBlockStop] @ fevs, Inl e)
      | (fevs, Inr u) \<Rightarrow>
          (case last_choice (content_phase response) None of
             None \<Rightarrow>
               ([MessageStart ''assistant'', ContentBlockStart None] @ text_deltas response
                  @ [ContentBlockStop] @ fevs, Inl (UnboundLocalError ''choice''))
           | Some ch \<Rightarrow>
               ([MessageStart ''assistant'', ContentBlockStart None] @ text_deltas response
                  @ [ContentBlockStop] @ fevs @ [MessageStop (stop_reason (c_finish_reason ch))]
                  @ metadata_events response, Inr ())))"
proof -
  obtain fevs fr where f: "flush_tool_calls (by_first_arrival (fragments response)) = (fevs, fr)"
    by (cases "flush_tool_calls (by_first_arrival (fragments response))")
  show ?thesis
  proof (cases fr)
    case (Inl e)
    with f show ?thesis
      by (simp add: stream_response_def yield_message_start yield_content_start_text gbind_Inr
            content_loop_eq yield_content_stop accumulate_by_first_arrival gbind_Inl)
  next
    case (Inr u)
    show ?thesis
    proof (cases "last_choice (content_phase response) None")
      case None
      with f Inr show ?thesis
        by (simp add: stream_response_def yield_message_start yield_content_start_text gbind_Inr
              content_loop_eq yield_content_stop accumulate_by_first_arrival graise_def gbind_Inl)
    next
      case (Some ch)
      then have ne: "response \<noteq> []"
        using last_choice_Some_nonempty content_phase_nonempty by blast
      then have d: "drain (trailer response) (drain (content_phase response) None) = Some (last response)"
        unfolding drain_phase_trailer by (simp add: drain_eq)
      from f Inr Some show ?thesis
        by (simp add: stream_response_def yield_message_start yield_content_start_text gbind_Inr
              content_loop_eq yield_content_stop accumulate_by_first_arrival yield_message_stop
              d metadata_events_def yield_metadata greturn_def
              split: option.splits)
    qed
  qed
qed

lemma stream_response_returns:
  assumes "stream_response response = (evs, Inr u)"
  shows "\<exists>ch. last_choice (content_phase response) None = Some ch
           \<and> (\<forall>tc\<in>set (fragments response). tc_function tc \<noteq> None)
           \<and> evs = [MessageStart ''assistant'', ContentBlockStart None] @ text_deltas response
                  @ [ContentBlockStop] @ tool_blocks (by_first_arrival (fragments response))
                  @ [MessageStop (stop_reason (c_finish_reason ch))] @ metadata_events response"
proof -
  obtain fevs fr where f: "flush_tool_calls (by_first_arrival (fragments response)) = (fevs, fr)"
    by (cases "flush_tool_calls (by_first_arrival (fragments response))")
  have fr: "fr = Inr ()"
    using assms f by (cases fr) (simp_all add: stream_response_unfold)
  then have fl: "flushable (by_first_arrival (fragments response))"
    using f flush_tool_calls_returns by blast
  then have fevs: "fevs = tool_blocks (by_first_arrival (fragments response))"
    using f flush_tool_calls_ok by simp
  obtain ch where ch: "last_choice (content_phase response) None = Some ch"
    using assms f fr by (cases "last_choice (content_phase response) None") (simp_all add: stream_response_unfold)
  have "evs = [MessageStart ''assistant'', ContentBlockStart None] @ text_deltas response
                  @ [ContentBlockStop] @ tool_blocks (by_first_arrival (fragments response))
                  @ [MessageStop (stop_reason (c_finish_reason ch))] @ metadata_events response"
    using assms f fr ch fevs by (simp add: stream_response_unfold)
  with ch fl show ?thesis
    by (simp add: flushable_by_first_arrival)
qed

lemma stream_response_ok:
  assumes "last_choice (content_phase response) None = Some ch"
    and "\<forall>tc\<in>set (fragments response). tc_function tc \<noteq> None"
  shows "stream_response response =
           ([MessageStart ''assistant'', ContentBlockStart None] @ text_deltas response
              @ [ContentBlockStop] @ tool_blocks (by_first_arrival (fragments response))
              @ [MessageStop (stop_reason (c_finish_reason ch))] @ metadata_events response, Inr ())"
  using assms
  by (simp add: stream_response_unfold flush_tool_calls_ok flushable_by_first_arrival)

lemma no_choices_not_finish: "ch_choices c = [] \<Longrightarrow> \<not> carries_finish c"
  by (simp add: carries_finish_def)

lemma no_choices_content_phase:
  "\<forall>c\<in>set response. ch_choices c = [] \<Longrightarrow> content_phase response = response"
  by (induction response) (simp_all add: no_choices_not_finish)

lemma no_choices_last_choice:
  "\<forall>c\<in>set response. ch_choices c = [] \<Longrightarrow> last_choice response found = found"
  by (induction response arbitrary: found) simp_all

lemma no_choices_deltas:
  "\<forall>c\<in>set response. ch_choices c = [] \<Longrightarrow> concat (map chunk_deltas response) = []"
  by (induction response) (simp_all add: chunk_deltas_def)

lemma no_choices_fragments:
  "\<forall>c\<in>set response. ch_choices c = [] \<Longrightarrow> concat (map chunk_fragments response) = []"
  by (induction response) (simp_all add: chunk_fragments_def)


lemma stream_response_no_choices:
  assumes "\<forall>c\<in>set response. ch_choices c = []"
  shows "stream_response response =
           ([MessageStart ''assistant'', ContentBlockStart None, ContentBlockStop],
            Inl (UnboundLocalError ''choice''))"
proof -
  have p: "content_phase response = response"
    using assms by (rule no_choices_content_phase)
  have t: "text_deltas response = []"
    unfolding text_deltas_def p using assms by (rule no_choices_deltas)
  have f: "fragments response = []"
    unfolding fragments_def p using assms by (rule no_choices_fragments)
  have l: "last_choice (content_phase response) None = None"
    unfolding p using assms by (rule no_choices_last_choice)
  have b: "by_first_arrival [] = []"
    by (simp add: by_first_arrival_def first_seen_def)
  show ?thesis
    unfolding stream_response_unfold t f l b by (simp add: greturn_def)
qed

lemma stream_after_create:
  "format_request lib config messages tool_specs system_prompt tool_choice system_prompt_content = Inr request
   \<Longrightarrow> create request = Inr response
   \<Longrightarrow> stream lib config create messages tool_specs system_prompt tool_choice system_prompt_content
         = stream_response response"
  by (simp add: stream_def)


lemma list_all_choice_deltas: "list_all is_text_delta (choice_deltas ch)"
  by (simp add: choice_deltas_def)

lemma list_all_chunk_deltas: "list_all is_text_delta (chunk_deltas c)"
  by (simp add: chunk_deltas_def list_all_choice_deltas split: list.splits)

lemma list_all_text_deltas: "list_all is_text_delta (text_deltas response)"
  by (simp add: text_deltas_def list_all_iff) (metis list_all_chunk_deltas list_all_iff)

lemma list_all_tool_block: "list_all is_tool_event (tool_block frs)"
  by (cases frs) (simp_all add: list_all_iff)

lemma list_all_tool_blocks: "list_all is_tool_event (tool_blocks d)"
  by (induction d) (auto simp: tool_blocks_def list_all_tool_block)

lemma metadata_events_cases:
  "metadata_events response = [] \<or> (\<exists>us. metadata_events response = [usage_event us])"
  by (cases "ch_usage (last response)") (auto simp: metadata_events_def)




lemma carries_finish_without_usage [simp]: "carries_finish (c\<lparr>ch_usage := x\<rparr>) = carries_finish c"
  by (simp add: carries_finish_def)

lemma content_phase_without_usage:
  "content_phase (without_usage cs) = without_usage (content_phase cs)"
  by (induction cs) (simp_all add: without_usage_def)

lemma content_phase_idem: "content_phase (content_phase cs) = content_phase cs"
  by (induction cs) simp_all

lemma chunk_deltas_without_usage: "map chunk_deltas (without_usage cs) = map chunk_deltas cs"
  by (simp add: without_usage_def chunk_deltas_def)

lemma chunk_fragments_without_usage: "map chunk_fragments (without_usage cs) = map chunk_fragments cs"
  by (simp add: without_usage_def chunk_fragments_def)

lemma last_choice_without_usage: "last_choice (without_usage cs) found = last_choice cs found"
  by (induction cs arbitrary: found) (simp_all add: without_usage_def)

lemma phase_of_stripped_phase:
  "content_phase (without_usage (content_phase cs)) = without_usage (content_phase cs)"
  by (simp add: content_phase_without_usage content_phase_idem)

lemma text_deltas_stripped: "text_deltas (without_usage (content_phase cs)) = text_deltas cs"
  by (simp add: text_deltas_def phase_of_stripped_phase chunk_deltas_without_usage)

lemma fragments_stripped: "fragments (without_usage (content_phase cs)) = fragments cs"
  by (simp add: fragments_def phase_of_stripped_phase chunk_fragments_without_usage)

lemma last_choice_stripped:
  "last_choice (content_phase (without_usage (content_phase cs))) found = last_choice (content_phase cs) found"
  by (simp add: phase_of_stripped_phase last_choice_without_usage)

lemma metadata_events_without_usage: "cs \<noteq> [] \<Longrightarrow> metadata_events (without_usage cs) = []"
  by (simp add: metadata_events_def without_usage_def last_map)

lemma text_delta_not_metadata: "is_text_delta e \<Longrightarrow> \<not> is_metadata e"
  by (cases e) simp_all

lemma tool_event_not_metadata: "is_tool_event e \<Longrightarrow> \<not> is_metadata e"
  by (cases e) simp_all

lemma no_metadata_in_text_deltas: "\<not> list_ex is_metadata (text_deltas response)"
  using list_all_text_deltas [of response] text_delta_not_metadata
  by (auto simp: list_ex_iff list_all_iff)

lemma no_metadata_in_tool_blocks: "\<not> list_ex is_metadata (tool_blocks d)"
  using list_all_tool_blocks [of d] tool_event_not_metadata
  by (auto simp: list_ex_iff list_all_iff)

lemma not_observed_last: "cs \<noteq> [] \<Longrightarrow> \<not> usage_observed cs \<Longrightarrow> ch_usage (last cs) = None"
  by (simp add: usage_observed_def list_ex_iff)

lemma text_delta_kinds:
  "is_text_delta e \<Longrightarrow> is_content_event e \<and> \<not> is_message_stop e \<and> \<not> is_metadata e"
  by (cases e) simp_all

lemma tool_event_kinds:
  "is_tool_event e \<Longrightarrow> is_content_event e \<and> \<not> is_message_stop e \<and> \<not> is_metadata e"
  by (cases e) simp_all

lemma filter_none: "(\<And>e. e \<in> set xs \<Longrightarrow> \<not> P e) \<Longrightarrow> filter P xs = []"
  by (simp add: filter_empty_conv)

lemma event_order_consequences:
  assumes evs: "evs = [MessageStart ''assistant'', ContentBlockStart None] @ deltas
                  @ [ContentBlockStop] @ blocks @ [MessageStop r] @ meta"
    and d: "list_all is_text_delta deltas"
    and b: "list_all is_tool_event blocks"
    and m: "meta = [] \<or> (\<exists>us. meta = [usage_event us])"
  shows "filter is_message_stop evs = [MessageStop r]"
    and "filter is_content_event evs = ContentBlockStart None # deltas @ ContentBlockStop # blocks"
    and "filter is_metadata evs = meta"
proof -
  have d1: "filter is_message_stop deltas = []" "filter is_metadata deltas = []"
    "filter is_content_event deltas = deltas"
    using d text_delta_kinds by (auto simp: list_all_iff filter_empty_conv filter_id_conv)
  have b1: "filter is_message_stop blocks = []" "filter is_metadata blocks = []"
    "filter is_content_event blocks = blocks"
    using b tool_event_kinds by (auto simp: list_all_iff filter_empty_conv filter_id_conv)
  have m1: "filter is_message_stop meta = []" "filter is_metadata meta = meta"
    "filter is_content_event meta = []"
    using m by (auto simp: usage_event_def)
  show "filter is_message_stop evs = [MessageStop r]"
    by (simp add: evs d1 b1 m1)
  show "filter is_content_event evs = ContentBlockStart None # deltas @ ContentBlockStop # blocks"
    by (simp add: evs d1 b1 m1)
  show "filter is_metadata evs = meta"
    by (simp add: evs d1 b1 m1)
qed

lemma stream_response_returns_iff:
  "(\<exists>evs u. stream_response response = (evs, Inr u)) \<longleftrightarrow>
     last_choice (content_phase response) None \<noteq> None
     \<and> (\<forall>tc\<in>set (fragments response). tc_function tc \<noteq> None)"
proof
  assume "\<exists>evs u. stream_response response = (evs, Inr u)"
  then obtain evs u where "stream_response response = (evs, Inr u)" by blast
  from stream_response_returns [OF this] show "last_choice (content_phase response) None \<noteq> None
     \<and> (\<forall>tc\<in>set (fragments response). tc_function tc \<noteq> None)"
    by auto
next
  assume a: "last_choice (content_phase response) None \<noteq> None
     \<and> (\<forall>tc\<in>set (fragments response). tc_function tc \<noteq> None)"
  then obtain ch where "last_choice (content_phase response) None = Some ch" by auto
  with a show "\<exists>evs u. stream_response response = (evs, Inr u)"
    using stream_response_ok by blast
qed

lemma last_choice_Some_iff:
  "last_choice cs found \<noteq> None \<longleftrightarrow> found \<noteq> None \<or> (\<exists>c\<in>set cs. ch_choices c \<noteq> [])"
  by (induction cs arbitrary: found) (auto split: list.splits)

section \<open>Streaming orchestrator: properties\<close>

text \<open>
  C10. When no chunk of the response carries choices (an empty response, or keepalive chunks
  only), the stream yields MessageStart, ContentBlockStart and ContentBlockStop and then
  raises the unbound-local error for \<open>choice\<close>, where it builds MessageStop.
\<close>

theorem stream_without_choices_unbound_local:
  assumes "format_request lib config messages tool_specs system_prompt tool_choice system_prompt_content = Inr request"
    and "create request = Inr response"
    and "\<forall>c\<in>set response. ch_choices c = []"
  shows "stream lib config create messages tool_specs system_prompt tool_choice system_prompt_content =
           ([MessageStart ''assistant'', ContentBlockStart None, ContentBlockStop],
            Inl (UnboundLocalError ''choice''))"
  using assms by (simp add: stream_after_create stream_response_no_choices)

theorem stream_without_choices_unbound_local_witness:
  "stream example_lib example_config (\<lambda>request. Inr [keepalive_chunk, usage_chunk 10 5 15]) [] None None None None =
     ([MessageStart ''assistant'', ContentBlockStart None, ContentBlockStop],
      Inl (UnboundLocalError ''choice''))
   \<and> stream example_lib example_config (\<lambda>request. Inr []) [] None None None None =
     ([MessageStart ''assistant'', ContentBlockStart None, ContentBlockStop],
      Inl (UnboundLocalError ''choice''))"
proof -
  obtain request :: "(string, string) request" where
    r: "format_request example_lib example_config [] None None None None = Inr request"
    using format_request_empty by blast
  show ?thesis
    using stream_without_choices_unbound_local [OF r, of "\<lambda>request. Inr [keepalive_chunk, usage_chunk 10 5 15]" "[keepalive_chunk, usage_chunk 10 5 15]"]
      stream_without_choices_unbound_local [OF r, of "\<lambda>request. Inr []" "[]"]
    by (simp add: keepalive_chunk_def usage_chunk_def)
qed

text \<open>
  C2, as the specification states it, fails: the tool calls are flushed in the order in
  which their indices first arrive, not in ascending index order. In this run index 1
  arrives before index 0, and the block of index 1 (\<open>calc\<close>) is flushed first; in ascending
  order the block of index 0 (\<open>search\<close>) would come first.
\<close>

theorem tool_calls_not_flushed_in_ascending_index_order:
  "stream_response
     [tool_chunk [fragment 1 (Some ''t2'') (Some ''calc'') (Some ''{x:'')],
      tool_chunk [fragment 0 (Some ''t1'') (Some ''search'') (Some ''{q:2}'')],
      tool_chunk [fragment 1 None None (Some ''1}'')],
      text_chunk None (Some ''tool_calls'')]
   = ([MessageStart ''assistant'', ContentBlockStart None, ContentBlockStop,
       ContentBlockStart (Some \<lparr>start_name = Some ''calc'', start_toolUseId = Some ''t2''\<rparr>),
       ContentBlockDelta (DeltaToolUse ''{x:''),
       ContentBlockDelta (DeltaToolUse ''1}''),
       ContentBlockStop,
       ContentBlockStart (Some \<lparr>start_name = Some ''search'', start_toolUseId = Some ''t1''\<rparr>),
       ContentBlockDelta (DeltaToolUse ''{q:2}''),
       ContentBlockStop,
       MessageStop ''tool_use''], Inr ())
   \<and> tool_blocks (by_ascending_index (fragments
       [tool_chunk [fragment 1 (Some ''t2'') (Some ''calc'') (Some ''{x:'')],
        tool_chunk [fragment 0 (Some ''t1'') (Some ''search'') (Some ''{q:2}'')],
        tool_chunk [fragment 1 None None (Some ''1}'')],
        text_chunk None (Some ''tool_calls'')]))
     = [ContentBlockStart (Some \<lparr>start_name = Some ''search'', start_toolUseId = Some ''t1''\<rparr>),
        ContentBlockDelta (DeltaToolUse ''{q:2}''),
        ContentBlockStop,
        ContentBlockStart (Some \<lparr>start_name = Some ''calc'', start_toolUseId = Some ''t2''\<rparr>),
        ContentBlockDelta (DeltaToolUse ''{x:''),
        ContentBlockDelta (DeltaToolUse ''1}''),
        ContentBlockStop]"
  by code_simp

text \<open>
  C2, amended. In every run that returns, the accumulated tool calls are flushed in the order
  in which their indices first arrive in the content phase: each as a ContentBlockStart from
  its first fragment, one \<open>toolUse\<close> delta for each of its fragments in arrival order, and a
  ContentBlockStop. They follow the stop of the text block and precede MessageStop.
\<close>

theorem tool_calls_flushed_in_first_arrival_order:
  assumes "stream_response response = (evs, Inr u)"
  shows "\<exists>ch. last_choice (content_phase response) None = Some ch
           \<and> evs = [MessageStart ''assistant'', ContentBlockStart None] @ text_deltas response
                  @ [ContentBlockStop] @ tool_blocks (by_first_arrival (fragments response))
                  @ [MessageStop (stop_reason (c_finish_reason ch))] @ metadata_events response"
  using stream_response_returns [OF assms] by blast

theorem tool_calls_flushed_in_first_arrival_order_witness:
  "stream_response out_of_order_response
     = ([MessageStart ''assistant'', ContentBlockStart None, ContentBlockStop,
         ContentBlockStart (Some \<lparr>start_name = Some ''calc'', start_toolUseId = Some ''t2''\<rparr>),
         ContentBlockDelta (DeltaToolUse ''{x:''),
         ContentBlockDelta (DeltaToolUse ''1}''),
         ContentBlockStop,
         ContentBlockStart (Some \<lparr>start_name = Some ''search'', start_toolUseId = Some ''t1''\<rparr>),
         ContentBlockDelta (DeltaToolUse ''{q:2}''),
         ContentBlockStop,
         MessageStop ''tool_use'', Metadata 10 20 30 0], Inr ())
   \<and> map fst (by_first_arrival (fragments out_of_order_response)) = [1, 0]
   \<and> (\<exists>ch. last_choice (content_phase out_of_order_response) None = Some ch
          \<and> [MessageStart ''assistant'', ContentBlockStart None, ContentBlockStop,
              ContentBlockStart (Some \<lparr>start_name = Some ''calc'', start_toolUseId = Some ''t2''\<rparr>),
              ContentBlockDelta (DeltaToolUse ''{x:''),
              ContentBlockDelta (DeltaToolUse ''1}''),
              ContentBlockStop,
              ContentBlockStart (Some \<lparr>start_name = Some ''search'', start_toolUseId = Some ''t1''\<rparr>),
              ContentBlockDelta (DeltaToolUse ''{q:2}''),
              ContentBlockStop,
              MessageStop ''tool_use'', Metadata 10 20 30 0]
             = [MessageStart ''assistant'', ContentBlockStart None] @ text_deltas out_of_order_response
               @ [ContentBlockStop] @ tool_blocks (by_first_arrival (fragments out_of_order_response))
               @ [MessageStop (stop_reason (c_finish_reason ch))]
               @ metadata_events out_of_order_response)"
proof -
  have run: "stream_response out_of_order_response
     = ([MessageStart ''assistant'', ContentBlockStart None, ContentBlockStop,
         ContentBlockStart (Some \<lparr>start_name = Some ''calc'', start_toolUseId = Some ''t2''\<rparr>),
         ContentBlockDelta (DeltaToolUse ''{x:''),
         ContentBlockDelta (DeltaToolUse ''1}''),
         ContentBlockStop,
         ContentBlockStart (Some \<lparr>start_name = Some ''search'', start_toolUseId = Some ''t1''\<rparr>),
         ContentBlockDelta (DeltaToolUse ''{q:2}''),
         ContentBlockStop,
         MessageStop ''tool_use'', Metadata 10 20 30 0], Inr ())"
    by code_simp
  have order: "map fst (by_first_arrival (fragments out_of_order_response)) = [1, 0]"
    by code_simp
  from run order tool_calls_flushed_in_first_arrival_order [OF run] show ?thesis
    by blast
qed

text \<open>
  C3. In every run that returns, the events are: MessageStart, the empty ContentBlockStart
  of the text block, text and reasoning deltas only, the ContentBlockStop of the text block,
  then events of tool-call blocks only, then the one MessageStop, then nothing or the one
  Metadata event. So MessageStart is first, every content event precedes the single
  MessageStop, the tool calls come after the text block is closed, and Metadata, when
  there is one, is last. The three filters say that there is no other MessageStop, content
  event or Metadata event in the run.
\<close>

theorem successful_stream_event_order:
  assumes "stream_response response = (evs, Inr u)"
  shows "\<exists>deltas blocks r meta.
           evs = [MessageStart ''assistant'', ContentBlockStart None] @ deltas
                  @ [ContentBlockStop] @ blocks @ [MessageStop r] @ meta
           \<and> list_all is_text_delta deltas
           \<and> list_all is_tool_event blocks
           \<and> (meta = [] \<or> (\<exists>us. meta = [usage_event us]))
           \<and> filter is_message_stop evs = [MessageStop r]
           \<and> filter is_content_event evs = ContentBlockStart None # deltas @ ContentBlockStop # blocks
           \<and> filter is_metadata evs = meta"
proof -
  obtain ch :: choice where
    evs: "evs = [MessageStart ''assistant'', ContentBlockStart None] @ text_deltas response
            @ [ContentBlockStop] @ tool_blocks (by_first_arrival (fragments response))
            @ [MessageStop (stop_reason (c_finish_reason ch))] @ metadata_events response"
    using stream_response_returns [OF assms] by blast
  note c = event_order_consequences [OF evs list_all_text_deltas list_all_tool_blocks metadata_events_cases]
  from evs c list_all_text_deltas list_all_tool_blocks metadata_events_cases show ?thesis
    by blast
qed

theorem successful_stream_event_order_witness:
  "stream_response out_of_order_response
     = ([MessageStart ''assistant'', ContentBlockStart None, ContentBlockStop,
         ContentBlockStart (Some \<lparr>start_name = Some ''calc'', start_toolUseId = Some ''t2''\<rparr>),
         ContentBlockDelta (DeltaToolUse ''{x:''),
         ContentBlockDelta (DeltaToolUse ''1}''),
         ContentBlockStop,
         ContentBlockStart (Some \<lparr>start_name = Some ''search'', start_toolUseId = Some ''t1''\<rparr>),
         ContentBlockDelta (DeltaToolUse ''{q:2}''),
         ContentBlockStop,
         MessageStop ''tool_use'', Metadata 10 20 30 0], Inr ())
   \<and> (\<exists>deltas blocks r meta.
         [MessageStart ''assistant'', ContentBlockStart None, ContentBlockStop,
          ContentBlockStart (Some \<lparr>start_name = Some ''calc'', start_toolUseId = Some ''t2''\<rparr>),
          ContentBlockDelta (DeltaToolUse ''{x:''),
          ContentBlockDelta (DeltaToolUse ''1}''),
          ContentBlockStop,
          ContentBlockStart (Some \<lparr>start_name = Some ''search'', start_toolUseId = Some ''t1''\<rparr>),
          ContentBlockDelta (DeltaToolUse ''{q:2}''),
          ContentBlockStop,
          MessageStop ''tool_use'', Metadata 10 20 30 0]
         = [MessageStart ''assistant'', ContentBlockStart None] @ deltas
           @ [ContentBlockStop] @ blocks @ [MessageStop r] @ meta
         \<and> list_all is_text_delta deltas
         \<and> list_all is_tool_event blocks
         \<and> (meta = [] \<or> (\<exists>us. meta = [usage_event us])))"
proof -
  have run: "stream_response out_of_order_response
     = ([MessageStart ''assistant'', ContentBlockStart None, ContentBlockStop,
         ContentBlockStart (Some \<lparr>start_name = Some ''calc'', start_toolUseId = Some ''t2''\<rparr>),
         ContentBlockDelta (DeltaToolUse ''{x:''),
         ContentBlockDelta (DeltaToolUse ''1}''),
         ContentBlockStop,
         ContentBlockStart (Some \<lparr>start_name = Some ''search'', start_toolUseId = Some ''t1''\<rparr>),
         ContentBlockDelta (DeltaToolUse ''{q:2}''),
         ContentBlockStop,
         MessageStop ''tool_use'', Metadata 10 20 30 0], Inr ())"
    by code_simp
  from run successful_stream_event_order [OF run] show ?thesis
    by blast
qed



text \<open>
  C6, as the specification states it, fails in both directions. In the first run a usage
  object is observed in the trailer (its first chunk carries one), the trailer is drained,
  and no Metadata event is emitted, because the last chunk drained carries no usage object.
  In the second run nothing follows the finish-reason chunk, so no usage object is observed
  in the trailer, and a Metadata event is emitted, because the finish-reason chunk itself
  carries a usage object.
\<close>

theorem metadata_not_iff_usage_in_trailer:
  "usage_observed (trailer [text_chunk (Some ''Hi'') (Some ''stop''), usage_chunk 10 5 15, keepalive_chunk])
   \<and> stream_response [text_chunk (Some ''Hi'') (Some ''stop''), usage_chunk 10 5 15, keepalive_chunk]
       = ([MessageStart ''assistant'', ContentBlockStart None,
           ContentBlockDelta (DeltaText (DataStr ''Hi'')),
           ContentBlockStop, MessageStop ''end_turn''], Inr ())
   \<and> \<not> usage_observed (trailer
          [(text_chunk (Some ''Hi'') (Some ''stop''))
             \<lparr>ch_usage := Some \<lparr>prompt_tokens = 10, completion_tokens = 5, total_tokens = 15\<rparr>\<rparr>])
   \<and> stream_response
          [(text_chunk (Some ''Hi'') (Some ''stop''))
             \<lparr>ch_usage := Some \<lparr>prompt_tokens = 10, completion_tokens = 5, total_tokens = 15\<rparr>\<rparr>]
       = ([MessageStart ''assistant'', ContentBlockStart None,
           ContentBlockDelta (DeltaText (DataStr ''Hi'')),
           ContentBlockStop, MessageStop ''end_turn'', Metadata 10 5 15 0], Inr ())"
  by code_simp

text \<open>
  C6, amended. In every run that returns, the events are those of the content phase alone
  (the chunks up to and including the finish-reason chunk, whatever usage they carry), which
  hold no Metadata event, followed by exactly one Metadata event if the last chunk of the
  whole response carries a usage object, and by nothing otherwise. So the chunks after the
  finish-reason chunk are drained without any content event, a usage object on the last
  chunk is reported also when it arrives after the finish-reason chunk, and when no chunk
  carries a usage object there is no Metadata event.
\<close>

theorem metadata_iff_last_chunk_carries_usage:
  assumes "stream_response response = (evs, Inr u)"
  shows "response \<noteq> []
       \<and> evs = fst (stream_response (without_usage (content_phase response)))
               @ (case ch_usage (last response) of None \<Rightarrow> [] | Some us \<Rightarrow> [usage_event us])
       \<and> \<not> list_ex is_metadata (fst (stream_response (without_usage (content_phase response))))
       \<and> (\<not> usage_observed response \<longrightarrow> \<not> list_ex is_metadata evs)"
proof -
  obtain ch :: choice where ch: "last_choice (content_phase response) None = Some ch"
    and fn: "\<forall>tc\<in>set (fragments response). tc_function tc \<noteq> None"
    and evs: "evs = [MessageStart ''assistant'', ContentBlockStart None] @ text_deltas response
            @ [ContentBlockStop] @ tool_blocks (by_first_arrival (fragments response))
            @ [MessageStop (stop_reason (c_finish_reason ch))] @ metadata_events response"
    using stream_response_returns [OF assms] by blast
  have ne: "response \<noteq> []"
    using ch last_choice_Some_nonempty content_phase_nonempty by blast
  then have pne: "content_phase response \<noteq> []"
    by (simp add: content_phase_nonempty)
  have body: "stream_response (without_usage (content_phase response)) =
           ([MessageStart ''assistant'', ContentBlockStart None] @ text_deltas response
              @ [ContentBlockStop] @ tool_blocks (by_first_arrival (fragments response))
              @ [MessageStop (stop_reason (c_finish_reason ch))], Inr ())"
    using stream_response_ok [of "without_usage (content_phase response)" ch] ch fn pne
    by (simp add: last_choice_stripped fragments_stripped text_deltas_stripped
          metadata_events_without_usage)
  have nm: "\<not> list_ex is_metadata (fst (stream_response (without_usage (content_phase response))))"
    using no_metadata_in_text_deltas [of response]
      no_metadata_in_tool_blocks [of "by_first_arrival (fragments response)"]
    by (simp add: body)
  have split: "evs = fst (stream_response (without_usage (content_phase response)))
               @ (case ch_usage (last response) of None \<Rightarrow> [] | Some us \<Rightarrow> [usage_event us])"
    by (simp add: body evs metadata_events_def)
  have "\<not> usage_observed response \<longrightarrow> \<not> list_ex is_metadata evs"
  proof
    assume "\<not> usage_observed response"
    with ne have "ch_usage (last response) = None" by (rule not_observed_last)
    with split nm show "\<not> list_ex is_metadata evs" by simp
  qed
  with ne split nm show ?thesis by blast
qed

text \<open>Scenario B: the usage chunk arrives after the finish-reason chunk.\<close>

theorem metadata_iff_last_chunk_carries_usage_witness:
  "stream_response scenario_b_response
     = ([MessageStart ''assistant'', ContentBlockStart None,
         ContentBlockDelta (DeltaText (DataStr ''Hello'')),
         ContentBlockDelta (DeltaText (DataStr '' world'')),
         ContentBlockStop, MessageStop ''end_turn'', Metadata 10 5 15 0], Inr ())
   \<and> [MessageStart ''assistant'', ContentBlockStart None,
         ContentBlockDelta (DeltaText (DataStr ''Hello'')),
         ContentBlockDelta (DeltaText (DataStr '' world'')),
         ContentBlockStop, MessageStop ''end_turn'', Metadata 10 5 15 0]
      = fst (stream_response (without_usage (content_phase scenario_b_response)))
        @ [Metadata 10 5 15 0]"
proof -
  have run: "stream_response scenario_b_response
     = ([MessageStart ''assistant'', ContentBlockStart None,
         ContentBlockDelta (DeltaText (DataStr ''Hello'')),
         ContentBlockDelta (DeltaText (DataStr '' world'')),
         ContentBlockStop, MessageStop ''end_turn'', Metadata 10 5 15 0], Inr ())"
    by code_simp
  have m: "(case ch_usage (last scenario_b_response)
            of None \<Rightarrow> [] | Some us \<Rightarrow> [usage_event us]) = [Metadata 10 5 15 0]"
    by (simp add: scenario_b_response_def usage_chunk_def usage_event_def)
  have e: "[MessageStart ''assistant'', ContentBlockStart None,
         ContentBlockDelta (DeltaText (DataStr ''Hello'')),
         ContentBlockDelta (DeltaText (DataStr '' world'')),
         ContentBlockStop, MessageStop ''end_turn'', Metadata 10 5 15 0]
      = fst (stream_response (without_usage (content_phase scenario_b_response)))
        @ [Metadata 10 5 15 0]"
    using metadata_iff_last_chunk_carries_usage [OF run] unfolding m by blast
  from run e show ?thesis by blast
qed

section \<open>Request formatter: properties\<close>

lemma map_raise_Inr_mem:
  "map_raise f xs = Inr ys \<Longrightarrow> x \<in> set xs \<Longrightarrow> \<exists>y\<in>set ys. f x = Inr y"
proof (induction xs arbitrary: ys)
  case Nil
  then show ?case by simp
next
  case (Cons a xs)
  then show ?case
    by (auto split: sum.splits)
qed

text \<open>
  C1. The claim is what the formatter documents and what it does on the neighbouring
  path: its docstring says that the system prompt content takes precedence over the system
  prompt, and a content without text (cache points only) suppresses the system prompt. With
  the empty list it does not: \<open>if system_prompt_content:\<close> is false for the empty list as
  it is for \<open>None\<close>, the \<open>elif\<close> branch runs, and the messages (those of
  \<open>format_request_messages\<close> and those under the key \<open>messages\<close> of the request) begin
  with a system message that carries the system prompt. The first two runs are the failing
  input, the third is the neighbouring path.
\<close>

theorem empty_system_prompt_content_does_not_override:
  "format_request_messages example_lib [\<lparr>msg_role = User, msg_content = [Text ''Hi'']\<rparr>]
       (Some ''Be brief'') (Some [])
     = Inr [\<lparr>fm_role = RoleSystem, fm_content = ContentStr ''Be brief'',
             fm_tool_calls = None, fm_tool_call_id = None\<rparr>,
            \<lparr>fm_role = RoleOf User, fm_content = ContentList [FText ''Hi''],
             fm_tool_calls = None, fm_tool_call_id = None\<rparr>]
   \<and> sent_value ''messages''
       (format_request example_lib example_config [\<lparr>msg_role = User, msg_content = [Text ''Hi'']\<rparr>]
          None (Some ''Be brief'') None (Some []))
     = Some (VMessages
         [\<lparr>fm_role = RoleSystem, fm_content = ContentStr ''Be brief'',
            fm_tool_calls = None, fm_tool_call_id = None\<rparr>,
          \<lparr>fm_role = RoleOf User, fm_content = ContentList [FText ''Hi''],
            fm_tool_calls = None, fm_tool_call_id = None\<rparr>])
   \<and> has_system_message
         [\<lparr>fm_role = RoleSystem, fm_content = ContentStr ''Be brief'',
            fm_tool_calls = None, fm_tool_call_id = None\<rparr>,
          \<lparr>fm_role = RoleOf User, fm_content = ContentList [FText ''Hi''],
            fm_tool_calls = None, fm_tool_call_id = None\<rparr>]
   \<and> format_request_messages example_lib [\<lparr>msg_role = User, msg_content = [Text ''Hi'']\<rparr>]
       (Some ''Be brief'') (Some [CachePoint ''default''])
     = Inr [\<lparr>fm_role = RoleOf User, fm_content = ContentList [FText ''Hi''],
             fm_tool_calls = None, fm_tool_call_id = None\<rparr>]"
proof -
  have failing: "format_request_messages example_lib [\<lparr>msg_role = User, msg_content = [Text ''Hi'']\<rparr>]
       (Some ''Be brief'') (Some [])
     = Inr [\<lparr>fm_role = RoleSystem, fm_content = ContentStr ''Be brief'',
             fm_tool_calls = None, fm_tool_call_id = None\<rparr>,
            \<lparr>fm_role = RoleOf User, fm_content = ContentList [FText ''Hi''],
             fm_tool_calls = None, fm_tool_call_id = None\<rparr>]"
    by code_simp
  have request: "sent_value ''messages''
       (format_request example_lib example_config [\<lparr>msg_role = User, msg_content = [Text ''Hi'']\<rparr>]
          None (Some ''Be brief'') None (Some []))
     = Some (VMessages
         [\<lparr>fm_role = RoleSystem, fm_content = ContentStr ''Be brief'',
            fm_tool_calls = None, fm_tool_call_id = None\<rparr>,
          \<lparr>fm_role = RoleOf User, fm_content = ContentList [FText ''Hi''],
            fm_tool_calls = None, fm_tool_call_id = None\<rparr>])"
    by (simp add: sent_value_def format_request_def failing base_request_def example_config_def)
  have system: "has_system_message
         [\<lparr>fm_role = RoleSystem, fm_content = ContentStr ''Be brief'',
            fm_tool_calls = None, fm_tool_call_id = None\<rparr>,
          \<lparr>fm_role = RoleOf User, fm_content = ContentList [FText ''Hi''],
            fm_tool_calls = None, fm_tool_call_id = None\<rparr>]"
    by (simp add: has_system_message_def)
  have neighbour: "format_request_messages example_lib [\<lparr>msg_role = User, msg_content = [Text ''Hi'']\<rparr>]
       (Some ''Be brief'') (Some [CachePoint ''default''])
     = Inr [\<lparr>fm_role = RoleOf User, fm_content = ContentList [FText ''Hi''],
             fm_tool_calls = None, fm_tool_call_id = None\<rparr>]"
    by code_simp
  from failing request system neighbour show ?thesis
    by blast
qed

lemma base_request_tools:
  "base_request config ms ''tools'' = map_option VParam (param_value config ''tools'')"
  by (auto simp: base_request_def param_value_def map_add_def split: option.splits)

lemma base_request_tool_choice:
  "base_request config ms ''tool_choice'' = map_option VParam (param_value config ''tool_choice'')"
  by (auto simp: base_request_def param_value_def map_add_def split: option.splits)

text \<open>
  C7, as the specification states it, fails: the configured extra parameters are unpacked
  into the request as they are, so with no tool specs the request still has the key
  \<open>tools\<close> when the parameters have it.
\<close>

theorem tools_key_from_params_without_tool_specs:
  "sent_value ''tools''
     (format_request example_lib \<lparr>model_id = ''gpt-4o'', params = Some [''tools'' \<mapsto> ''from params'']\<rparr>
        [] None None None None)
     = Some (VParam ''from params'')"
  by (simp add: sent_value_def format_request_def format_request_messages_def Let_def
        base_request_def system_messages_def)

text \<open>
  C7, amended. For every request whose configured extra parameters have neither the key
  \<open>tools\<close> nor the key \<open>tool_choice\<close>: the key \<open>tools\<close> is present iff the list of tool
  specs is non-empty (and then holds the formatted specs), and the key \<open>tool_choice\<close> is
  present iff \<open>tools\<close> is present and a tool choice was supplied; the choice of a tool
  \<open>n\<close> with at least one tool spec gives \<open>{type: function, function: {name: n}}\<close>, and with
  no tool specs the key \<open>tool_choice\<close> is absent.
\<close>

theorem tools_and_tool_choice_keys:
  assumes "format_request lib config messages tool_specs system_prompt tool_choice system_prompt_content
             = Inr request"
    and "param_value config ''tools'' = None"
    and "param_value config ''tool_choice'' = None"
  shows "(request ''tools'' \<noteq> None \<longleftrightarrow> tool_specs \<noteq> None \<and> tool_specs \<noteq> Some [])
       \<and> (request ''tool_choice'' \<noteq> None \<longleftrightarrow> request ''tools'' \<noteq> None \<and> tool_choice \<noteq> None)
       \<and> (tool_specs \<noteq> None \<and> tool_specs \<noteq> Some [] \<longrightarrow>
            request ''tools'' = Some (VTools (map format_tool_spec (the tool_specs))))
       \<and> (tool_specs \<noteq> None \<and> tool_specs \<noteq> Some [] \<longrightarrow>
            (\<forall>n. tool_choice = Some (Tool n) \<longrightarrow>
                 request ''tool_choice'' = Some (VToolChoice (ChoiceFunction n))))
       \<and> (tool_specs = None \<or> tool_specs = Some [] \<longrightarrow> request ''tool_choice'' = None)"
proof -
  from assms(1) obtain ms where
    req: "request =
       (let request = base_request config ms in
           if tool_specs \<noteq> None \<and> tool_specs \<noteq> Some [] then
             (let request = request(''tools'' \<mapsto> VTools (map format_tool_spec (the tool_specs))) in
              case tool_choice of
                Some tc \<Rightarrow> request(''tool_choice'' \<mapsto> VToolChoice (format_tool_choice tc))
              | None \<Rightarrow> request)
           else request)"
    by (auto simp: format_request_def Let_def split: sum.splits option.splits if_splits)
  show ?thesis
    using assms(2,3)
    by (cases tool_choice)
       (auto simp: req Let_def base_request_tools base_request_tool_choice)
qed

theorem tools_and_tool_choice_keys_witness:
  "sent_value ''tool_choice''
     (format_request example_lib example_config []
        (Some [\<lparr>ts_name = ''get_weather'', ts_description = ''Weather'', ts_inputSchema_json = ''{}''\<rparr>])
        None (Some (Tool ''get_weather'')) None)
     = Some (VToolChoice (ChoiceFunction ''get_weather''))
   \<and> sent_value ''tools''
     (format_request example_lib example_config []
        (Some [\<lparr>ts_name = ''get_weather'', ts_description = ''Weather'', ts_inputSchema_json = ''{}''\<rparr>])
        None (Some (Tool ''get_weather'')) None)
     = Some (VTools [\<lparr>ft_type = ''function'', ft_name = ''get_weather'', ft_description = ''Weather'',
                      ft_parameters = ''{}''\<rparr>])
   \<and> sent_value ''tool_choice''
     (format_request example_lib example_config [] (Some []) None (Some (Tool ''get_weather'')) None)
     = None
   \<and> sent_value ''tools''
     (format_request example_lib example_config [] (Some []) None (Some (Tool ''get_weather'')) None)
     = None"
proof -
  obtain request :: "(string, string) request" where
    r: "format_request example_lib example_config []
        (Some [\<lparr>ts_name = ''get_weather'', ts_description = ''Weather'', ts_inputSchema_json = ''{}''\<rparr>])
        None (Some (Tool ''get_weather'')) None = Inr request"
    by (simp add: format_request_def format_request_messages_def Let_def)
  obtain request0 :: "(string, string) request" where
    r0: "format_request example_lib example_config [] (Some []) None (Some (Tool ''get_weather'')) None
           = Inr request0"
    by (simp add: format_request_def format_request_messages_def Let_def)
  have p: "param_value example_config ''tools'' = None" "param_value example_config ''tool_choice'' = None"
    by (simp_all add: param_value_def example_config_def)
  show ?thesis
    using tools_and_tool_choice_keys [OF r p] tools_and_tool_choice_keys [OF r0 p]
    by (simp add: sent_value_def r r0 format_tool_spec_def)
qed


lemma tool_results_mem: "ToolResult tr \<in> set bs \<Longrightarrow> tr \<in> set (tool_results bs)"
  by (induction bs rule: tool_results.induct) auto

lemma format_message_loop_mem:
  "format_message_loop lib messages = Inr body \<Longrightarrow> message \<in> set messages \<Longrightarrow>
   \<exists>ms. format_one_message lib message = Inr ms \<and> set ms \<subseteq> set body"
proof (induction messages arbitrary: body)
  case Nil
  then show ?case by simp
next
  case (Cons a messages)
  then show ?case
    by (auto split: sum.splits) fastforce
qed

lemma format_one_message_tool_result:
  assumes "format_one_message lib message = Inr ms"
    and "tr \<in> set (tool_results (msg_content message))"
  shows "\<exists>m\<in>set ms. format_request_tool_message lib tr = Inr m"
proof -
  from assms(1) obtain first tms where
    tms: "map_raise (format_request_tool_message lib) (tool_results (msg_content message)) = Inr tms"
    and ms: "ms = first # tms"
    by (auto simp: format_one_message_def Let_def split: sum.splits)
  from map_raise_Inr_mem [OF tms assms(2)] ms show ?thesis by auto
qed

lemma tool_message_json_entry:
  assumes "format_request_tool_message lib tr = Inr m"
    and "TRJson v \<in> set (tr_content tr)"
  shows "fm_role m = RoleTool \<and> fm_tool_call_id m = Some (tr_toolUseId tr)
       \<and> (\<exists>fs. fm_content m = ContentList fs \<and> FText (json_dumps lib v) \<in> set fs)"
proof -
  from assms(1) obtain fs where
    fs: "map_raise (format_request_message_content lib)
           (map (tool_result_block lib) (tr_content tr)) = Inr fs"
    and m: "m = \<lparr>fm_role = RoleTool, fm_content = ContentList fs, fm_tool_calls = None,
                 fm_tool_call_id = Some (tr_toolUseId tr)\<rparr>"
    by (auto simp: format_request_tool_message_def Let_def split: sum.splits)
  have "Text (json_dumps lib v) \<in> set (map (tool_result_block lib) (tr_content tr))"
    using assms(2) by force
  from map_raise_Inr_mem [OF fs this] have "FText (json_dumps lib v) \<in> set fs"
    by auto
  with m show ?thesis by simp
qed

text \<open>
  C8. When the formatter returns, every tool result block with a \<open>json\<close> entry \<open>v\<close> has
  given a message of its own in the result, with the role \<open>tool\<close> and the tool call id of
  the result, among whose content is the text \<open>json.dumps(v)\<close>: parsing it gives \<open>v\<close> back,
  for every parser \<open>loads\<close> that inverts \<open>json.dumps\<close> on \<open>v\<close>.
\<close>

theorem json_tool_result_round_trip:
  assumes "format_request_messages lib messages system_prompt system_prompt_content = Inr out"
    and "message \<in> set messages"
    and "ToolResult tr \<in> set (msg_content message)"
    and "TRJson v \<in> set (tr_content tr)"
    and "loads (json_dumps lib v) = Some v"
  shows "\<exists>m\<in>set out. format_request_tool_message lib tr = Inr m
           \<and> fm_role m = RoleTool
           \<and> fm_tool_call_id m = Some (tr_toolUseId tr)
           \<and> (\<exists>fs t. fm_content m = ContentList fs \<and> FText t \<in> set fs \<and> loads t = Some v)"
proof -
  from assms(1) obtain body where body: "format_message_loop lib messages = Inr body"
    and out: "out = filter (\<lambda>message. content_truthy (fm_content message) \<or> fm_tool_calls message \<noteq> None)
                    (system_messages system_prompt system_prompt_content @ body)"
    by (auto simp: format_request_messages_def split: sum.splits)
  obtain ms where ms: "format_one_message lib message = Inr ms" and sub: "set ms \<subseteq> set body"
    using format_message_loop_mem [OF body assms(2)] by blast
  obtain m where m: "m \<in> set ms" and fm: "format_request_tool_message lib tr = Inr m"
    using format_one_message_tool_result [OF ms tool_results_mem [OF assms(3)]] by blast
  from tool_message_json_entry [OF fm assms(4)] obtain fs where
    props: "fm_role m = RoleTool" "fm_tool_call_id m = Some (tr_toolUseId tr)"
      "fm_content m = ContentList fs" "FText (json_dumps lib v) \<in> set fs"
    by blast
  then have "content_truthy (fm_content m)" by auto
  with m sub out have "m \<in> set out" by auto
  with fm props assms(5) show ?thesis by blast
qed

theorem json_tool_result_round_trip_witness:
  "format_request_messages example_lib
     [\<lparr>msg_role = User,
       msg_content = [ToolResult \<lparr>tr_toolUseId = ''call-1'', tr_content = [TRJson ''{result: 42}'']\<rparr>]\<rparr>]
     None None
   = Inr [\<lparr>fm_role = RoleTool, fm_content = ContentList [FText ''{result: 42}''],
           fm_tool_calls = None, fm_tool_call_id = Some ''call-1''\<rparr>]
   \<and> (\<exists>m\<in>set [\<lparr>fm_role = RoleTool, fm_content = ContentList [FText ''{result: 42}''],
                  fm_tool_calls = None, fm_tool_call_id = Some ''call-1''\<rparr>].
         fm_role m = RoleTool \<and> fm_tool_call_id m = Some ''call-1''
         \<and> (\<exists>fs t. fm_content m = ContentList fs \<and> FText t \<in> set fs \<and> Some t = Some ''{result: 42}''))"
proof -
  have run: "format_request_messages example_lib
     [\<lparr>msg_role = User,
       msg_content = [ToolResult \<lparr>tr_toolUseId = ''call-1'', tr_content = [TRJson ''{result: 42}'']\<rparr>]\<rparr>]
     None None
   = Inr [\<lparr>fm_role = RoleTool, fm_content = ContentList [FText ''{result: 42}''],
           fm_tool_calls = None, fm_tool_call_id = Some ''call-1''\<rparr>]"
    by code_simp
  have rt: "Some (json_dumps example_lib ''{result: 42}'') = Some ''{result: 42}''"
    by (simp add: example_lib_def)
  from json_tool_result_round_trip [OF run, of _ "\<lparr>tr_toolUseId = ''call-1'', tr_content = [TRJson ''{result: 42}'']\<rparr>" "''{result: 42}''" Some, OF _ _ _ rt]
  have "\<exists>m\<in>set [\<lparr>fm_role = RoleTool, fm_content = ContentList [FText ''{result: 42}''],
                  fm_tool_calls = None, fm_tool_call_id = Some ''call-1''\<rparr>].
         fm_role m = RoleTool \<and> fm_tool_call_id m = Some ''call-1''
         \<and> (\<exists>fs t. fm_content m = ContentList fs \<and> FText t \<in> set fs \<and> Some t = Some ''{result: 42}'')"
    by fastforce
  with run show ?thesis by blast
qed

section \<open>Structured-output adapter: properties\<close>

lemma first_parsed_at_most_one:
  "length choices \<le> 1 \<Longrightarrow>
   first_parsed isinstance output_model choices =
     (case choices of
        [Some v] \<Rightarrow> if isinstance v output_model then Some v else None
      | _ \<Rightarrow> None)"
  by (cases choices) (auto split: option.splits list.splits)

text \<open>
  C9. When the parse call returns: more than one choice raises the multiple-choices error;
  one choice whose parsed object is an instance of the requested model yields exactly that
  object; one choice whose parsed object is absent or not an instance, and no choice at
  all, raise the no-valid-structured-output error.
\<close>

theorem structured_output_cases:
  assumes "format_request lib config prompt None system_prompt None None = Inr request"
    and "parse (model_id config) (request ''messages'') output_model = Inr choices"
  shows "structured_output lib config parse isinstance output_model prompt system_prompt =
           (if length choices > 1
            then ([], Some (ValueError ''Multiple choices found in the response.''))
            else case choices of
                   [Some v] \<Rightarrow>
                     if isinstance v output_model then ([v], None)
                     else ([], Some (ValueError ''No valid structured output was found in the response.''))
                 | _ \<Rightarrow> ([], Some (ValueError ''No valid structured output was found in the response.'')))"
proof (cases "length choices > 1")
  case True
  with assms show ?thesis by (simp add: structured_output_def)
next
  case False
  then have "length choices \<le> 1" by simp
  then have "first_parsed isinstance output_model choices =
     (case choices of
        [Some v] \<Rightarrow> if isinstance v output_model then Some v else None
      | _ \<Rightarrow> None)"
    by (rule first_parsed_at_most_one)
  with assms False show ?thesis
    by (auto simp: structured_output_def split: list.splits option.splits)
qed

theorem structured_output_cases_witness:
  "structured_output example_lib example_config (\<lambda>model messages schema. Inr [Some (7::nat)])
      (\<lambda>v schema. v < schema) (10::nat) [] None = ([7], None)
   \<and> structured_output example_lib example_config (\<lambda>model messages schema. Inr [Some (70::nat)])
      (\<lambda>v schema. v < schema) (10::nat) [] None
      = ([], Some (ValueError ''No valid structured output was found in the response.''))
   \<and> structured_output example_lib example_config (\<lambda>model messages schema. Inr [])
      (\<lambda>v schema. v < schema) (10::nat) [] None
      = ([], Some (ValueError ''No valid structured output was found in the response.''))
   \<and> structured_output example_lib example_config (\<lambda>model messages schema. Inr [Some (7::nat), Some 8])
      (\<lambda>v schema. v < schema) (10::nat) [] None
      = ([], Some (ValueError ''Multiple choices found in the response.''))"
proof -
  obtain request :: "(string, string) request" where
    r: "format_request example_lib example_config [] None None None None = Inr request"
    by (simp add: format_request_def format_request_messages_def)
  show ?thesis
    using structured_output_cases [OF r, of "\<lambda>model messages schema. Inr [Some (7::nat)]" 10 "[Some 7]" "\<lambda>v schema. v < schema"]
      structured_output_cases [OF r, of "\<lambda>model messages schema. Inr [Some (70::nat)]" 10 "[Some 70]" "\<lambda>v schema. v < schema"]
      structured_output_cases [OF r, of "\<lambda>model messages schema. Inr []" "10::nat" "[]" "\<lambda>v schema. v < schema"]
      structured_output_cases [OF r, of "\<lambda>model messages schema. Inr [Some (7::nat), Some 8]" 10 "[Some 7, Some 8]" "\<lambda>v schema. v < schema"]
    by simp
qed

end
